theory Spec2Isabelle
  imports Complex_Main "HOL-Library.Char_ord" "HOL-Library.List_Lexorder"
    "HOL-Library.Multiset"
begin

section \<open>JavaScript values and strings\<close>

text \<open>
  The ingestion code of \<^verbatim>\<open>src/trends.ts\<close> works on records of type
  \<^verbatim>\<open>Record<string, unknown>\<close>: the cells of a CSV/TSV file are strings, the
  members of a JSON document are arbitrary JSON values. A value is one of the
  JavaScript primitives or a JSON container. Numbers that come out of
  \<^verbatim>\<open>JSON.parse\<close> are finite, so they are carried as rationals; no arithmetic
  is done on them here.

  Strings are \<^typ>\<open>string\<close>, read as sequences of ASCII characters: the white space
  that \<^verbatim>\<open>trim\<close> and the regular expression class \<^verbatim>\<open>\s\<close> recognise is tab,
  line feed, vertical tab, form feed, carriage return and space, together with the
  no-break space (code 0xA0), and \<^verbatim>\<open>toLowerCase\<close> maps \<^verbatim>\<open>A-Z\<close> to
  \<^verbatim>\<open>a-z\<close>.
\<close>

datatype jsval =
    Undefined
  | Null
  | Bool bool
  | Num rat
  | Str string
  | Arr "jsval list"
  | Obj "(string \<times> jsval) list"

text \<open>
  What the engine and its libraries supply and the repository does not define:
  number formatting and parsing, the free-form \<^verbatim>\<open>new Date(string)\<close> parser
  (\<open>None\<close> when the time value is \<^verbatim>\<open>NaN\<close>, else milliseconds since the epoch),
  the collation behind \<^verbatim>\<open>String.prototype.localeCompare\<close>,
  \<^verbatim>\<open>JSON.parse\<close> and the \<^verbatim>\<open>csv-parse\<close> package called with
  \<^verbatim>\<open>columns: true\<close> (\<open>None\<close> when they throw; a CSV record lists its cells
  by column name).
\<close>

record platform =
  numToString :: "rat \<Rightarrow> string"
  parseFloatFinite :: "string \<Rightarrow> rat option"
  parseIntFinite :: "string \<Rightarrow> rat option"
  dateParse :: "string \<Rightarrow> int option"
  localeCompare :: "string \<Rightarrow> string \<Rightarrow> int"
  jsonParse :: "string \<Rightarrow> jsval option"
  csvParse :: "string \<Rightarrow> char \<Rightarrow> (string \<times> string) list list option"

definition isSpace :: "char \<Rightarrow> bool" where
  "isSpace c =
     (c \<in> set [CHR '' '', CHR 0x09, CHR 0x0A, CHR 0x0B, CHR 0x0C, CHR 0x0D, CHR 0xA0])"

definition trim :: "string \<Rightarrow> string" where
  "trim s = rev (dropWhile isSpace (rev (dropWhile isSpace s)))"

fun join :: "string \<Rightarrow> string list \<Rightarrow> string" where
  "join sep [] = []"
| "join sep [x] = x"
| "join sep (x # y # ys) = x @ sep @ join sep (y # ys)"

text \<open>\<^verbatim>\<open>s.split(d)\<close> for a one-character separator: never empty, \<^verbatim>\<open>''.split(d)\<close> is \<^verbatim>\<open>['']\<close>.\<close>

fun splitOn :: "char \<Rightarrow> string \<Rightarrow> string list" where
  "splitOn d [] = [[]]"
| "splitOn d (c # cs) =
     (if c = d then [] # splitOn d cs
      else (case splitOn d cs of [] \<Rightarrow> [[c]] | p # ps \<Rightarrow> (c # p) # ps))"

text \<open>\<^verbatim>\<open>s.split(d, n)\<close>: the first \<open>n\<close> pieces of the full split.\<close>

definition splitLimit :: "char \<Rightarrow> nat \<Rightarrow> string \<Rightarrow> string list" where
  "splitLimit d n s = take n (splitOn d s)"

fun startsWith :: "string \<Rightarrow> string \<Rightarrow> bool" where
  "startsWith s [] = True"
| "startsWith [] (p # ps) = False"
| "startsWith (c # cs) (p # ps) = (c = p \<and> startsWith cs ps)"

text \<open>\<^verbatim>\<open>s.includes(p)\<close>.\<close>

fun includes_str :: "string \<Rightarrow> string \<Rightarrow> bool" where
  "includes_str [] p = (p = [])"
| "includes_str (c # cs) p = (startsWith (c # cs) p \<or> includes_str cs p)"

definition toLowerChar :: "char \<Rightarrow> char" where
  "toLowerChar c =
     (case map_of (zip ''ABCDEFGHIJKLMNOPQRSTUVWXYZ'' ''abcdefghijklmnopqrstuvwxyz'') c of
        None \<Rightarrow> c | Some l \<Rightarrow> l)"

definition toLowerCase :: "string \<Rightarrow> string" where
  "toLowerCase s = map toLowerChar s"

text \<open>
  \<^verbatim>\<open>String(v)\<close>. An array prints its elements joined by commas, with
  \<^verbatim>\<open>null\<close> and \<^verbatim>\<open>undefined\<close> elements printed empty; an object that
  \<^verbatim>\<open>JSON.parse\<close> built prints as \<^verbatim>\<open>[object Object]\<close>.
\<close>

fun jsString :: "platform \<Rightarrow> jsval \<Rightarrow> string" where
  "jsString P Undefined = ''undefined''"
| "jsString P Null = ''null''"
| "jsString P (Bool b) = (if b then ''true'' else ''false'')"
| "jsString P (Num n) = numToString P n"
| "jsString P (Str s) = s"
| "jsString P (Arr vs) =
     join '','' (map (\<lambda>v. if v = Undefined \<or> v = Null then [] else jsString P v) vs)"
| "jsString P (Obj kvs) = ''[object Object]''"

text \<open>The chain \<^verbatim>\<open>a ?? b ?? ... ?? d\<close>: the first operand that is neither
  \<^verbatim>\<open>undefined\<close> nor \<^verbatim>\<open>null\<close>, else the last one.\<close>

definition nullish :: "jsval \<Rightarrow> bool" where
  "nullish v = (v = Undefined \<or> v = Null)"

fun coalesce :: "jsval list \<Rightarrow> jsval \<Rightarrow> jsval" where
  "coalesce [] d = d"
| "coalesce (v # vs) d = (if nullish v then coalesce vs d else v)"

section \<open>Row normalisation: \<^verbatim>\<open>buildRow\<close>\<close>

text \<open>
  A \<^verbatim>\<open>TrendRow\<close> is a \<^verbatim>\<open>Record<string, string | number | null | undefined>\<close>:
  a finite map from keys to values. Reading a key that is not there gives
  \<^verbatim>\<open>undefined\<close>.
\<close>

type_synonym TrendRow = "string \<rightharpoonup> jsval"

definition getProp :: "TrendRow \<Rightarrow> string \<Rightarrow> jsval" where
  "getProp r k = (case r k of None \<Rightarrow> Undefined | Some v \<Rightarrow> v)"

definition OPTIONAL_COPY_KEYS :: "string list" where
  "OPTIONAL_COPY_KEYS =
     [''linked_tickers'', ''provider'', ''collection_window'', ''query_count'', ''week_id'']"

definition DEFAULT_LIMIT :: int where "DEFAULT_LIMIT = 25"
definition MAX_LIMIT :: int where "MAX_LIMIT = 200"

definition coerceFloat :: "platform \<Rightarrow> jsval \<Rightarrow> rat option" where
  "coerceFloat P v =
     (if v = Null \<or> v = Undefined \<or> v = Str [] then None
      else parseFloatFinite P (jsString P v))"

definition coerceInt :: "platform \<Rightarrow> jsval \<Rightarrow> rat option" where
  "coerceInt P v =
     (if v = Null \<or> v = Undefined \<or> v = Str [] then None
      else parseIntFinite P (jsString P v))"

definition optNum :: "rat option \<Rightarrow> jsval" where
  "optNum x = (case x of None \<Rightarrow> Undefined | Some n \<Rightarrow> Num n)"

text \<open>\<^verbatim>\<open>if (x !== undefined) row[key] = x\<close> for a coerced number.\<close>

definition setNum :: "string \<Rightarrow> rat option \<Rightarrow> TrendRow \<Rightarrow> TrendRow" where
  "setNum key x row = (case x of None \<Rightarrow> row | Some n \<Rightarrow> row(key \<mapsto> Num n))"

text \<open>\<^verbatim>\<open>if (s) row[key] = s\<close> for a string.\<close>

definition setStr :: "string \<Rightarrow> string \<Rightarrow> TrendRow \<Rightarrow> TrendRow" where
  "setStr key s row = (if s \<noteq> [] then row(key \<mapsto> Str s) else row)"

text \<open>One round of the loop over \<^verbatim>\<open>OPTIONAL_COPY_KEYS\<close>.\<close>

definition copyKey :: "(string \<Rightarrow> jsval) \<Rightarrow> TrendRow \<Rightarrow> string \<Rightarrow> TrendRow" where
  "copyKey raw row key =
     (let v = raw key in
      if v \<noteq> Undefined \<and> v \<noteq> Null \<and> v \<noteq> Str [] then row(key \<mapsto> v) else row)"

text \<open>The derivation of \<^verbatim>\<open>query\<close> (lines 82-84 and 110-124 of the source).\<close>

definition rowQuery :: "platform \<Rightarrow> (string \<Rightarrow> jsval) \<Rightarrow> string \<Rightarrow> string" where
  "rowQuery P raw sourceFile =
     (let query0 = trim (jsString P (coalesce
            [raw ''query'', raw ''keyword'', raw ''term'', raw ''search_term''] (Str [])));
          route = trim (jsString P (coalesce [raw ''route''] (Str [])));
          airline = trim (jsString P (coalesce [raw ''airline''] (Str [])));
          season = trim (jsString P (coalesce [raw ''season''] (Str [])));
          query1 =
            (if query0 = [] then
               (let q = (if route \<noteq> [] \<or> airline \<noteq> []
                         then trim (join '' '' (filter (\<lambda>s. s \<noteq> []) [route, airline, season]))
                         else query0)
                in if q = []
                   then trim (jsString P (coalesce
                          [raw ''provider'', raw ''category'', raw ''topic''] (Str [])))
                   else q)
             else query0)
      in if query1 \<noteq> [] then query1 else sourceFile)"

text \<open>The split of \<^verbatim>\<open>route\<close> into the two airports (lines 142-149).\<close>

definition setRoute :: "string \<Rightarrow> TrendRow \<Rightarrow> TrendRow" where
  "setRoute route row =
     (if route \<noteq> [] then
        (let row1 = row(''route'' \<mapsto> Str route) in
         if CHR ''-'' \<in> set route then
           (let parts = map trim (splitLimit (CHR ''-'') 2 route);
                origin = (case parts of [] \<Rightarrow> [] | a # _ \<Rightarrow> a);
                destination = (case parts of a # b # _ \<Rightarrow> b | _ \<Rightarrow> [])
            in setStr ''destination_airport'' destination (setStr ''origin_airport'' origin row1))
         else row1)
      else row)"

text \<open>The object literal of lines 123-133, with the values computed in lines 82-121.\<close>

definition baseRow ::
  "platform \<Rightarrow> (string \<Rightarrow> jsval) \<Rightarrow> string \<Rightarrow> string \<Rightarrow> TrendRow" where
  "baseRow P raw sourceFile sourceFormat =
     (let snapshotDateValue = trim (jsString P (coalesce [raw ''snapshot_date''] (Str [])));
          dateValue =
            (if snapshotDateValue \<noteq> [] then snapshotDateValue
             else trim (jsString P (coalesce
                    [raw ''date'', raw ''week'', raw ''week_id'', raw ''period''] (Str []))));
          region = trim (jsString P (coalesce
                    [raw ''region'', raw ''region_name'', raw ''geo''] (Str [])));
          searchIndex = coerceInt P (coalesce [raw ''search_index'', raw ''index''] (raw ''score''));
          brandingMix = coerceFloat P (coalesce
                    [raw ''branding_mix'', raw ''mix_share'', raw ''implied_unit_sales_impact'']
                    (raw ''metric''));
          notableEvent = trim (jsString P (coalesce
                    [raw ''notable_driver'', raw ''notable_event'', raw ''notes'',
                     raw ''channel_checks'', raw ''processing_notes''] (Str [])))
      in [''query'' \<mapsto> Str (rowQuery P raw sourceFile),
          ''date'' \<mapsto> Str dateValue,
          ''snapshot_date'' \<mapsto>
             Str (if snapshotDateValue \<noteq> [] then snapshotDateValue else dateValue),
          ''region'' \<mapsto> Str region,
          ''search_index'' \<mapsto> optNum searchIndex,
          ''branding_mix'' \<mapsto> optNum brandingMix,
          ''notable_event'' \<mapsto> Str notableEvent,
          ''source_file'' \<mapsto> Str sourceFile,
          ''source_format'' \<mapsto> Str sourceFormat])"

text \<open>Lines 135-195: the optional keys, the route, and the numeric fields.\<close>

definition buildRow ::
  "platform \<Rightarrow> (string \<Rightarrow> jsval) \<Rightarrow> string \<Rightarrow> string \<Rightarrow> TrendRow" where
  "buildRow P raw sourceFile sourceFormat =
     (let route = trim (jsString P (coalesce [raw ''route''] (Str [])));
          airline = trim (jsString P (coalesce [raw ''airline''] (Str [])));
          season = trim (jsString P (coalesce [raw ''season''] (Str [])));
          row0 = baseRow P raw sourceFile sourceFormat;
          row1 = foldl (copyKey raw) row0 OPTIONAL_COPY_KEYS;
          row2 = setRoute route row1;
          row3 = setStr ''airline'' airline row2;
          row4 = setStr ''season'' season row3;
          row5 = setNum ''avg_fare_usd'' (coerceFloat P (raw ''avg_fare_usd'')) row4;
          row6 = setNum ''premium_fare_usd'' (coerceFloat P (raw ''premium_fare_usd'')) row5;
          row7 = setNum ''fare_yoy_pct'' (coerceFloat P (raw ''fare_yoy_pct'')) row6;
          row8 = setNum ''advance_purchase_days'' (coerceInt P (raw ''advance_purchase_days'')) row7;
          row9 = setNum ''load_factor_pct'' (coerceFloat P (raw ''load_factor_pct'')) row8;
          row10 = setNum ''ancillary_revenue_pct'' (coerceFloat P (raw ''ancillary_revenue_pct'')) row9;
          notableDriver = trim (jsString P (coalesce [raw ''notable_driver''] (Str [])))
      in if notableDriver \<noteq> []
         then row10(''notable_driver'' \<mapsto> Str notableDriver, ''notable_event'' \<mapsto> Str notableDriver)
         else row10)"

section \<open>Dates: \<^verbatim>\<open>parseIsoDate\<close>\<close>

text \<open>
  A \<^verbatim>\<open>Date\<close> is its time value, milliseconds since 1970-01-01T00:00Z. The day
  arithmetic is that of ECMA-262 (\<^verbatim>\<open>DayFromYear\<close>, \<^verbatim>\<open>MakeDay\<close>,
  \<^verbatim>\<open>WeekDay\<close>, and the rule of \<^verbatim>\<open>Date.UTC\<close> that reads a year from 0 to 99
  as 1900 plus that year). The regular expressions admit four-digit years and two-digit
  months, days and weeks only, so every time value built here is far inside the range
  that \<^verbatim>\<open>TimeClip\<close> accepts and the test \<^verbatim>\<open>Number.isNaN(parsed.getTime())\<close>
  never fires.
\<close>

definition msPerDay :: int where "msPerDay = 86400000"

definition DayFromYear :: "int \<Rightarrow> int" where
  "DayFromYear y = 365 * (y - 1970) + (y - 1969) div 4 - (y - 1901) div 100 + (y - 1601) div 400"

definition InLeapYear :: "int \<Rightarrow> bool" where
  "InLeapYear y = (y mod 4 = 0 \<and> (y mod 100 \<noteq> 0 \<or> y mod 400 = 0))"

text \<open>The day within the year on which month \<open>m\<close> (0 to 11) starts.\<close>

definition monthStart :: "int \<Rightarrow> bool \<Rightarrow> int" where
  "monthStart m leap =
     [0, 31, 59, 90, 120, 151, 181, 212, 243, 273, 304, 334] ! nat m
       + (if leap \<and> 2 \<le> m then 1 else 0)"

definition MakeDay :: "int \<Rightarrow> int \<Rightarrow> int \<Rightarrow> int" where
  "MakeDay year month date =
     (let ym = year + month div 12; mn = month mod 12
      in DayFromYear ym + monthStart mn (InLeapYear ym) + date - 1)"

definition fullYear :: "int \<Rightarrow> int" where
  "fullYear year = (if 0 \<le> year \<and> year \<le> 99 then 1900 + year else year)"

definition DateUTC :: "int \<Rightarrow> int \<Rightarrow> int \<Rightarrow> int" where
  "DateUTC year month day = MakeDay (fullYear year) month day * msPerDay"

definition getUTCDay :: "int \<Rightarrow> int" where
  "getUTCDay t = (t div msPerDay + 4) mod 7"

definition isDigit :: "char \<Rightarrow> bool" where
  "isDigit c = (c \<in> set ''0123456789'')"

definition digitVal :: "char \<Rightarrow> int" where
  "digitVal c = (case map_of (zip ''0123456789'' [0, 1, 2, 3, 4, 5, 6, 7, 8, 9]) c of
                   None \<Rightarrow> 0 | Some v \<Rightarrow> v)"

text \<open>\<^verbatim>\<open>Number.parseInt(s, 10)\<close> on a string of digits.\<close>

definition parseInt10 :: "string \<Rightarrow> int" where
  "parseInt10 s = foldl (\<lambda>acc c. 10 * acc + digitVal c) 0 s"

text \<open>\<^verbatim>\<open>/^(\d{4})[-/](\d{2})[-/](\d{2})$/\<close> with its three groups parsed.\<close>

definition matchDate :: "string \<Rightarrow> (int \<times> int \<times> int) option" where
  "matchDate s =
     (if length s = 10 \<and> list_all isDigit (take 4 s) \<and> s ! 4 \<in> set ''-/''
         \<and> list_all isDigit (take 2 (drop 5 s)) \<and> s ! 7 \<in> set ''-/''
         \<and> list_all isDigit (drop 8 s)
      then Some (parseInt10 (take 4 s), parseInt10 (take 2 (drop 5 s)), parseInt10 (drop 8 s))
      else None)"

text \<open>\<^verbatim>\<open>/^(\d{4})-W(\d{2})$/i\<close> with its two groups parsed.\<close>

definition matchWeek :: "string \<Rightarrow> (int \<times> int) option" where
  "matchWeek s =
     (if length s = 8 \<and> list_all isDigit (take 4 s) \<and> s ! 4 = CHR ''-''
         \<and> s ! 5 \<in> set ''Ww'' \<and> list_all isDigit (drop 6 s)
      then Some (parseInt10 (take 4 s), parseInt10 (drop 6 s))
      else None)"

text \<open>
  Lines 64-75. \<^verbatim>\<open>jan4\<close> is built by \<^verbatim>\<open>Date.UTC(year, 0, 4)\<close>, so its
  \<^verbatim>\<open>getUTCDate()\<close> is 4 and \<^verbatim>\<open>setUTCDate(d)\<close> on its copy is the time value of
  \<^verbatim>\<open>MakeDay\<close> at the year of \<^verbatim>\<open>jan4\<close>, January, day \<open>d\<close>.
\<close>

definition weekMonday :: "int \<Rightarrow> int \<Rightarrow> int" where
  "weekMonday year week =
     (let jan4 = DateUTC year 0 4;
          jan4Weekday = (if getUTCDay jan4 = 0 then 7 else getUTCDay jan4);
          jan4Date = 4
      in MakeDay (fullYear year) 0 (jan4Date + (1 - jan4Weekday) + (week - 1) * 7) * msPerDay)"

definition parseIsoDate :: "platform \<Rightarrow> string option \<Rightarrow> int option" where
  "parseIsoDate P value =
     (case value of
        None \<Rightarrow> None
      | Some v \<Rightarrow>
          if v = [] then None
          else let trimmed = trim v in
            if trimmed = [] then None
            else (case matchDate trimmed of
                    Some (year, month, day) \<Rightarrow> Some (DateUTC year (month - 1) day)
                  | None \<Rightarrow>
                     (case matchWeek trimmed of
                        Some (year, week) \<Rightarrow> Some (weekMonday year week)
                      | None \<Rightarrow> dateParse P trimmed)))"


section \<open>Loading the dataset\<close>

text \<open>
  The file system as the loader sees it: \<^verbatim>\<open>fs.readdir\<close> with
  \<^verbatim>\<open>withFileTypes\<close> (\<open>None\<close> when it throws), \<^verbatim>\<open>fs.readFile\<close>
  (\<open>None\<close> when it throws) and \<^verbatim>\<open>path.resolve\<close> of one argument, which turns
  the configured directory into an absolute path.
\<close>

record dirent =
  name :: string
  isFile :: bool

record filesystem =
  readdir :: "string \<Rightarrow> dirent list option"
  readFile :: "string \<Rightarrow> string option"
  resolve :: "string \<Rightarrow> string"

text \<open>
  \<^verbatim>\<open>path.resolve(directory, name)\<close> for an absolute directory and the name of a
  directory entry, and \<^verbatim>\<open>path.basename\<close>, \<^verbatim>\<open>path.extname\<close> of Node's POSIX
  \<^verbatim>\<open>path\<close> module: the extension runs from the last dot of the base name to its
  end, and is empty when there is no dot, when the only dot is the first character, and
  for the name \<^verbatim>\<open>..\<close>.
\<close>

definition resolve2 :: "string \<Rightarrow> string \<Rightarrow> string" where
  "resolve2 directory entry =
     (if directory \<noteq> [] \<and> last directory = CHR ''/'' then directory @ entry
      else directory @ ''/'' @ entry)"

definition basename :: "string \<Rightarrow> string" where
  "basename p = rev (takeWhile (\<lambda>c. c \<noteq> CHR ''/'') (rev p))"

definition extname :: "string \<Rightarrow> string" where
  "extname p =
     (let b = basename p; after = rev (takeWhile (\<lambda>c. c \<noteq> CHR ''.'') (rev b))
      in if CHR ''.'' \<notin> set b then []
         else if Suc (length after) = length b then []
         else if b = ''..'' then []
         else CHR ''.'' # after)"

datatype suffix = csv | tsv | json

definition SUPPORTED_SUFFIXES :: "string \<rightharpoonup> suffix" where
  "SUPPORTED_SUFFIXES = [''.csv'' \<mapsto> csv, ''.tsv'' \<mapsto> tsv, ''.json'' \<mapsto> json]"

datatype load_error = ReadFailed | ParseFailed

text \<open>A raw record read by name: \<^verbatim>\<open>raw[key]\<close>.\<close>

definition rawOf :: "(string \<times> jsval) list \<Rightarrow> string \<Rightarrow> jsval" where
  "rawOf kvs k = (case map_of kvs k of None \<Rightarrow> Undefined | Some v \<Rightarrow> v)"

text \<open>\<^verbatim>\<open>content.split(/\r?\n/)\<close>: a line that a line feed ends loses one carriage
  return before it.\<close>

definition stripCR :: "string \<Rightarrow> string" where
  "stripCR l = (if l \<noteq> [] \<and> last l = CHR 0x0D then butlast l else l)"

definition splitLines :: "string \<Rightarrow> string list" where
  "splitLines content =
     (let ps = splitOn (CHR 0x0A) content in map stripCR (butlast ps) @ [last ps])"

text \<open>The loop of lines 204-217: the header recovered from a comment and the data lines.\<close>

fun scanLines :: "char \<Rightarrow> string list \<Rightarrow> string option \<Rightarrow> string list
    \<Rightarrow> string option \<times> string list" where
  "scanLines delimiter [] headerLine dataLines = (headerLine, dataLines)"
| "scanLines delimiter (line # lines) headerLine dataLines =
     (let trimmed = trim line in
      if trimmed = [] then scanLines delimiter lines headerLine dataLines
      else if startsWith trimmed ''#'' then
        (let comment = trim (tl trimmed) in
         if (headerLine = None \<or> headerLine = Some []) \<and> delimiter \<in> set comment
         then scanLines delimiter lines (Some comment) dataLines
         else scanLines delimiter lines headerLine dataLines)
      else scanLines delimiter lines headerLine (dataLines @ [line]))"

definition loadTabularRows ::
  "platform \<Rightarrow> filesystem \<Rightarrow> string \<Rightarrow> char \<Rightarrow> load_error + TrendRow list" where
  "loadTabularRows P F filePath delimiter =
     (case readFile F filePath of
        None \<Rightarrow> Inl ReadFailed
      | Some content \<Rightarrow>
          (case scanLines delimiter (splitLines content) None [] of
             (headerLine, dataLines) \<Rightarrow>
               if dataLines = [] then Inr []
               else
                 (let csvSource =
                        (case headerLine of
                           None \<Rightarrow> []
                         | Some h \<Rightarrow> if h \<noteq> [] then h @ [CHR 0x0A] else [])
                        @ join [CHR 0x0A] dataLines
                  in case csvParse P csvSource delimiter of
                       None \<Rightarrow> Inl ParseFailed
                     | Some records \<Rightarrow>
                         (let sourceFile = basename filePath;
                              sourceFormat = (if delimiter = CHR 0x09 then ''tsv'' else ''csv'')
                          in Inr (map (\<lambda>record.
                                   buildRow P (rawOf (map (\<lambda>(k, v). (k, Str v)) record))
                                     sourceFile sourceFormat) records)))))"

text \<open>
  \<^verbatim>\<open>entry && typeof entry === 'object'\<close> holds of arrays and objects. An object
  lists its own properties in enumeration order, each key once; the own properties of
  an array are its indices, which \<^verbatim>\<open>buildRow\<close> never reads.
\<close>

definition isObject :: "jsval \<Rightarrow> bool" where
  "isObject v = (case v of Arr _ \<Rightarrow> True | Obj _ \<Rightarrow> True | _ \<Rightarrow> False)"

definition member :: "jsval \<Rightarrow> string \<Rightarrow> jsval" where
  "member v k = (case v of Obj kvs \<Rightarrow> rawOf kvs k | _ \<Rightarrow> Undefined)"

text \<open>Decimal index keys of an array, for \<^verbatim>\<open>Object.entries\<close>.\<close>

fun showNat :: "nat \<Rightarrow> string" where
  "showNat n =
     (if n < 10 then [''0123456789'' ! n] else showNat (n div 10) @ [''0123456789'' ! (n mod 10)])"

definition entries :: "jsval \<Rightarrow> (string \<times> jsval) list" where
  "entries v =
     (case v of
        Obj kvs \<Rightarrow> kvs
      | Arr vs \<Rightarrow> zip (map showNat [0..<length vs]) vs
      | _ \<Rightarrow> [])"

text \<open>\<^verbatim>\<open>ingest(data, defaults)\<close>: the spread \<^verbatim>\<open>{...defaults, ...data}\<close> lets the
  properties of \<open>data\<close> win.\<close>

definition ingest :: "platform \<Rightarrow> string \<Rightarrow> jsval \<Rightarrow> (string \<times> jsval) list \<Rightarrow> TrendRow" where
  "ingest P sourceFile data defaults =
     buildRow P
       (\<lambda>k. case map_of (entries data) k of
               Some v \<Rightarrow> v
             | None \<Rightarrow> rawOf defaults k)
       sourceFile ''json''"

definition regionRows ::
  "platform \<Rightarrow> string \<Rightarrow> jsval \<Rightarrow> string \<times> jsval \<Rightarrow> TrendRow list" where
  "regionRows P sourceFile weekValue e =
     (case e of (regionName, regionPayload) \<Rightarrow>
        if \<not> isObject regionPayload then []
        else
          (let defaults = [(''region'', Str regionName), (''week'', weekValue),
                           (''channel_checks'', member regionPayload ''channel_checks'')];
               topQueries = member regionPayload ''top_queries''
           in case topQueries of
                Arr qs \<Rightarrow> map (\<lambda>entry. ingest P sourceFile entry defaults) (filter isObject qs)
              | _ \<Rightarrow> [ingest P sourceFile regionPayload defaults]))"

definition loadJsonRows ::
  "platform \<Rightarrow> filesystem \<Rightarrow> string \<Rightarrow> load_error + TrendRow list" where
  "loadJsonRows P F filePath =
     (case readFile F filePath of
        None \<Rightarrow> Inl ReadFailed
      | Some content \<Rightarrow>
          (case jsonParse P content of
             None \<Rightarrow> Inl ParseFailed
           | Some payload \<Rightarrow>
               (let sourceFile = basename filePath in
                case payload of
                  Arr es \<Rightarrow> Inr (map (\<lambda>entry. ingest P sourceFile entry []) (filter isObject es))
                | Obj kvs \<Rightarrow>
                    (let regions = member payload ''regions'' in
                     if isObject regions
                     then Inr (concat (map (regionRows P sourceFile (member payload ''week''))
                                 (entries regions)))
                     else Inr [ingest P sourceFile payload []])
                | _ \<Rightarrow> Inr [])))"

definition loadTrendRowsFromFile ::
  "platform \<Rightarrow> filesystem \<Rightarrow> string \<Rightarrow> suffix \<Rightarrow> load_error + TrendRow list" where
  "loadTrendRowsFromFile P F filePath sfx =
     (if sfx = csv then loadTabularRows P F filePath (CHR '','')
      else if sfx = tsv then loadTabularRows P F filePath (CHR 0x09)
      else loadJsonRows P F filePath)"

text \<open>
  \<^verbatim>\<open>Array.prototype.sort\<close> is stable; with a comparator that orders its arguments
  consistently its result is the stable insertion sort.
\<close>

fun insertBy :: "('a \<Rightarrow> 'a \<Rightarrow> int) \<Rightarrow> 'a \<Rightarrow> 'a list \<Rightarrow> 'a list" where
  "insertBy cmp x [] = [x]"
| "insertBy cmp x (y # ys) = (if cmp x y \<le> 0 then x # y # ys else y # insertBy cmp x ys)"

definition sortBy :: "('a \<Rightarrow> 'a \<Rightarrow> int) \<Rightarrow> 'a list \<Rightarrow> 'a list" where
  "sortBy cmp xs = foldr (insertBy cmp) xs []"

text \<open>The loop of lines 321-330; the warning it logs for a failed file is not kept.\<close>

fun ingestFiles ::
  "platform \<Rightarrow> filesystem \<Rightarrow> string list \<Rightarrow> TrendRow list \<Rightarrow> TrendRow list" where
  "ingestFiles P F [] aggregatedRows = aggregatedRows"
| "ingestFiles P F (filePath # rest) aggregatedRows =
     (case SUPPORTED_SUFFIXES (toLowerCase (extname filePath)) of
        None \<Rightarrow> ingestFiles P F rest aggregatedRows
      | Some sfx \<Rightarrow>
          (case loadTrendRowsFromFile P F filePath sfx of
             Inl error \<Rightarrow> ingestFiles P F rest aggregatedRows
           | Inr rows \<Rightarrow> ingestFiles P F rest (aggregatedRows @ rows)))"

text \<open>The result is the pair \<^verbatim>\<open>{ rows, availableFiles }\<close>.\<close>

definition loadTrendDataset ::
  "platform \<Rightarrow> filesystem \<Rightarrow> string \<Rightarrow> TrendRow list \<times> string list" where
  "loadTrendDataset P F trendDataDir =
     (let directory = resolve F trendDataDir in
      case readdir F directory of
        None \<Rightarrow> ([], [])
      | Some dirents \<Rightarrow>
          (let entries0 =
                 filter (\<lambda>filePath. SUPPORTED_SUFFIXES (toLowerCase (extname filePath)) \<noteq> None)
                   (map (\<lambda>entry. resolve2 directory (name entry)) (filter isFile dirents));
               sorted_entries =
                 sortBy (\<lambda>a b. localeCompare P (basename a) (basename b)) entries0
           in (ingestFiles P F sorted_entries [], map basename sorted_entries)))"


section \<open>Querying: \<^verbatim>\<open>queryAirfareTrends\<close>\<close>

text \<open>
  A filter that is \<^verbatim>\<open>null\<close> or \<^verbatim>\<open>undefined\<close> is \<open>None\<close>; the code reads
  each of them through \<^verbatim>\<open>??\<close>, which does not tell the two apart. The limit is
  an integer, as the tool's input schema has it.
\<close>

record AirfareTrendFilters =
  snapshotDate :: "string option"
  routeContains :: "string option"
  originAirport :: "string option"
  destinationAirport :: "string option"
  airlineContains :: "string option"
  seasonContains :: "string option"
  notableContains :: "string option"
  limit :: "int option"

text \<open>The \<^verbatim>\<open>filters\<close> object of the result as the main path builds it.\<close>

record AppliedFilters =
  snapshot_date :: "string option"
  route_contains :: "string option"
  origin_airport :: "string option"
  destination_airport :: "string option"
  airline_contains :: "string option"
  season_contains :: "string option"
  notable_contains :: "string option"
  limit_applied :: int

text \<open>
  The result carries one of two objects under \<^verbatim>\<open>filters\<close>: the caller's own
  \<^verbatim>\<open>AirfareTrendFilters\<close> (line 380) or the object with the keys
  \<^verbatim>\<open>snapshot_date\<close>, ..., \<^verbatim>\<open>limit\<close> (lines 473-482).
\<close>

datatype echoed_filters = CallerFilters AirfareTrendFilters | Applied AppliedFilters

record QueryResult =
  rows :: "TrendRow list"
  available_files :: "string list"
  filters :: echoed_filters
  total_rows :: nat
  matched_rows :: nat
  rows_returned :: nat
  trend_data_dir :: string

text \<open>\<^verbatim>\<open>(filters.x ?? '').trim().toLowerCase()\<close>.\<close>

definition normFilter :: "string option \<Rightarrow> string" where
  "normFilter v = toLowerCase (trim (case v of None \<Rightarrow> [] | Some s \<Rightarrow> s))"

text \<open>\<^verbatim>\<open>typeof row['snapshot_date'] === 'string' ? row['snapshot_date'] : undefined\<close>.\<close>

definition snapshotOf :: "TrendRow \<Rightarrow> string option" where
  "snapshotOf row = (case getProp row ''snapshot_date'' of Str s \<Rightarrow> Some s | _ \<Rightarrow> None)"

text \<open>\<^verbatim>\<open>String(row['route'] ?? row['query'] ?? '')\<close> and
  \<^verbatim>\<open>String(row[key] ?? '')\<close>.\<close>

definition routeOrQuery :: "platform \<Rightarrow> TrendRow \<Rightarrow> string" where
  "routeOrQuery P row = jsString P (coalesce [getProp row ''route'', getProp row ''query''] (Str []))"

definition fieldText :: "platform \<Rightarrow> TrendRow \<Rightarrow> string \<Rightarrow> string" where
  "fieldText P row key = jsString P (coalesce [getProp row key] (Str []))"

text \<open>
  The predicate of \<^verbatim>\<open>rows.filter\<close> (lines 398-447). The two ISO strings are
  compared through the time values they print: \<^verbatim>\<open>toISOString\<close> is one-to-one on
  them.
\<close>

definition rowMatches :: "platform \<Rightarrow> AirfareTrendFilters \<Rightarrow> TrendRow \<Rightarrow> bool" where
  "rowMatches P criteria row =
     (let snapshotFilterIso = parseIsoDate P (snapshotDate criteria);
          routeFilter = normFilter (routeContains criteria);
          originFilter = normFilter (originAirport criteria);
          destinationFilter = normFilter (destinationAirport criteria);
          airlineFilter = normFilter (airlineContains criteria);
          seasonFilter = normFilter (seasonContains criteria);
          notableFilter = normFilter (notableContains criteria);
          rowSnapshotIso = parseIsoDate P (snapshotOf row)
      in if snapshotFilterIso \<noteq> None \<and> rowSnapshotIso \<noteq> snapshotFilterIso then False
         else if routeFilter \<noteq> [] \<and> \<not> includes_str (toLowerCase (routeOrQuery P row)) routeFilter
           then False
         else if originFilter \<noteq> []
                 \<and> toLowerCase (fieldText P row ''origin_airport'') \<noteq> originFilter
           then False
         else if destinationFilter \<noteq> []
                 \<and> toLowerCase (fieldText P row ''destination_airport'') \<noteq> destinationFilter
           then False
         else if airlineFilter \<noteq> []
                 \<and> \<not> includes_str (toLowerCase (fieldText P row ''airline'')) airlineFilter
           then False
         else if seasonFilter \<noteq> []
                 \<and> \<not> includes_str (toLowerCase (fieldText P row ''season'')) seasonFilter
           then False
         else if notableFilter \<noteq> []
                 \<and> \<not> includes_str (toLowerCase (fieldText P row ''notable_event'')) notableFilter
           then False
         else True)"

text \<open>
  The comparator of lines 451-465. A row without a date has \<^verbatim>\<open>-Infinity\<close> for
  its time; of \<^verbatim>\<open>dateB - dateA\<close> only the sign is used, so an infinite difference
  is 1 or -1 here.
\<close>

definition rowCompare :: "platform \<Rightarrow> TrendRow \<Rightarrow> TrendRow \<Rightarrow> int" where
  "rowCompare P a b =
     (let dateA = parseIsoDate P (snapshotOf a);
          dateB = parseIsoDate P (snapshotOf b)
      in if dateA \<noteq> dateB then
           (case (dateA, dateB) of
              (Some x, Some y) \<Rightarrow> y - x
            | (None, Some y) \<Rightarrow> 1
            | (Some x, None) \<Rightarrow> - 1
            | (None, None) \<Rightarrow> 0)
         else
           (let routeA = routeOrQuery P a; routeB = routeOrQuery P b in
            if routeA \<noteq> routeB then localeCompare P routeA routeB
            else localeCompare P (fieldText P a ''airline'') (fieldText P b ''airline'')))"

definition queryAirfareTrends ::
  "platform \<Rightarrow> filesystem \<Rightarrow> string \<Rightarrow> AirfareTrendFilters \<Rightarrow> QueryResult" where
  "queryAirfareTrends P F trendDataDir criteria =
     (case loadTrendDataset P F trendDataDir of
        (rows0, availableFiles) \<Rightarrow>
          if length rows0 = 0 then
            \<lparr> rows = [], available_files = availableFiles, filters = CallerFilters criteria,
              total_rows = 0, matched_rows = 0, rows_returned = 0,
              trend_data_dir = resolve F trendDataDir \<rparr>
          else
            (let filtered = filter (rowMatches P criteria) rows0;
                 sortedRows = sortBy (rowCompare P) filtered;
                 limit1 = min (max (case limit criteria of None \<Rightarrow> DEFAULT_LIMIT | Some l \<Rightarrow> l) 1)
                            MAX_LIMIT;
                 limitedRows = take (nat limit1) sortedRows
             in \<lparr> rows = limitedRows, available_files = availableFiles,
                  filters = Applied
                    \<lparr> snapshot_date = snapshotDate criteria,
                      route_contains = routeContains criteria,
                      origin_airport = originAirport criteria,
                      destination_airport = destinationAirport criteria,
                      airline_contains = airlineContains criteria,
                      season_contains = seasonContains criteria,
                      notable_contains = notableContains criteria,
                      limit_applied = limit1 \<rparr>,
                  total_rows = length rows0, matched_rows = length sortedRows,
                  rows_returned = length limitedRows,
                  trend_data_dir = resolve F trendDataDir \<rparr>))"

section \<open>Authentication: \<^verbatim>\<open>src/auth.ts\<close>\<close>

text \<open>
  What is thrown: an \<^verbatim>\<open>AuthorizationError\<close> with its message and status, or
  whatever \<^verbatim>\<open>jwtVerify\<close> of the \<^verbatim>\<open>jose\<close> package throws, kept by name. The
  verifier and the URL parser are supplied from outside.
\<close>

datatype thrown = AuthorizationError string nat | JoseError string

record auth_env =
  jwtVerify :: "string \<Rightarrow> string + (string \<times> jsval) list"
  parseUrl :: "string \<Rightarrow> string option"
  resourceServerUrl :: string

definition REQUIRED_SCOPES :: "string list" where
  "REQUIRED_SCOPES = [''openid'', ''profile'', ''email'']"

text \<open>\<^verbatim>\<open>!v\<close> on a value that \<^verbatim>\<open>JSON.parse\<close> can give.\<close>

definition falsy :: "jsval \<Rightarrow> bool" where
  "falsy v = (v = Undefined \<or> v = Null \<or> v = Bool False \<or> v = Num 0 \<or> v = Str [])"

text \<open>\<^verbatim>\<open>s.split(/[\s,]+/)\<close>: the pieces between the maximal runs of separators.\<close>

definition isScopeSep :: "char \<Rightarrow> bool" where
  "isScopeSep c = (isSpace c \<or> c = CHR '','')"

function splitRuns :: "(char \<Rightarrow> bool) \<Rightarrow> string \<Rightarrow> string list" where
  "splitRuns sep [] = [[]]"
| "splitRuns sep (c # cs) =
     (if sep c then [] # splitRuns sep (dropWhile sep cs)
      else (case splitRuns sep cs of [] \<Rightarrow> [[c]] | p # ps \<Rightarrow> (c # p) # ps))"
  by pat_completeness auto
termination
  by (relation "measure (\<lambda>(sep, s). length s)")
     (auto simp: le_imp_less_Suc length_dropWhile_le)

definition extractScopes :: "(string \<times> jsval) list \<Rightarrow> string list" where
  "extractScopes payload =
     (let scopeValue = coalesce [rawOf payload ''scope''] (rawOf payload ''scp'') in
      if falsy scopeValue then []
      else (case scopeValue of
              Str s \<Rightarrow> filter (\<lambda>item. length item > 0) (map trim (splitRuns isScopeSep s))
            | Arr items \<Rightarrow>
                filter (\<lambda>item. length item > 0)
                  (map (\<lambda>item. case item of Str t \<Rightarrow> trim t | _ \<Rightarrow> []) items)
            | _ \<Rightarrow> []))"

definition ensureRequiredScopes :: "string list \<Rightarrow> thrown + unit" where
  "ensureRequiredScopes scopes =
     (let missing = filter (\<lambda>scope. scope \<notin> set scopes) REQUIRED_SCOPES in
      if length missing > 0
      then Inl (AuthorizationError (''Missing required scopes: '' @ join '', '' missing) 403)
      else Inr ())"

definition tryParseUrl :: "auth_env \<Rightarrow> jsval \<Rightarrow> string option" where
  "tryParseUrl A v = (case v of Str s \<Rightarrow> if length s = 0 then None else parseUrl A s | _ \<Rightarrow> None)"

fun firstUrl :: "auth_env \<Rightarrow> jsval list \<Rightarrow> string option" where
  "firstUrl A [] = None"
| "firstUrl A (item # items) =
     (case tryParseUrl A item of Some u \<Rightarrow> Some u | None \<Rightarrow> firstUrl A items)"

definition resolveResource :: "auth_env \<Rightarrow> (string \<times> jsval) list \<Rightarrow> string option" where
  "resolveResource A payload =
     (let aud = rawOf payload ''aud'';
          fromResource = (case rawOf payload ''resource'' of
                            Str r \<Rightarrow> tryParseUrl A (Str r) | _ \<Rightarrow> None)
      in case aud of
           Str s \<Rightarrow> tryParseUrl A aud
         | Arr items \<Rightarrow> (case firstUrl A items of Some u \<Rightarrow> Some u | None \<Rightarrow> fromResource)
         | _ \<Rightarrow> fromResource)"

record VerifiedAuthInfo =
  token :: string
  clientId :: string
  scopes :: "string list"
  expiresAt :: "rat option"
  resource_url :: string
  claims :: "(string \<times> jsval) list"
  subject :: "string option"

definition verifyBearerToken :: "auth_env \<Rightarrow> string \<Rightarrow> thrown + VerifiedAuthInfo" where
  "verifyBearerToken A tok =
     (if tok = [] then Inl (AuthorizationError ''Missing bearer token'' 401)
      else case jwtVerify A tok of
        Inl e \<Rightarrow> Inl (JoseError e)
      | Inr payload \<Rightarrow>
          (let scopes1 = extractScopes payload in
           case (if length REQUIRED_SCOPES > 0 then ensureRequiredScopes scopes1 else Inr ()) of
             Inl e \<Rightarrow> Inl e
           | Inr u \<Rightarrow>
               Inr \<lparr> token = tok,
                     clientId = (case rawOf payload ''azp'' of
                                   Str s \<Rightarrow> s
                                 | _ \<Rightarrow> (case rawOf payload ''client_id'' of
                                           Str s \<Rightarrow> s | _ \<Rightarrow> ''unknown_client'')),
                     scopes = scopes1,
                     expiresAt = (case rawOf payload ''exp'' of Num n \<Rightarrow> Some n | _ \<Rightarrow> None),
                     resource_url = (case resolveResource A payload of
                                       Some u \<Rightarrow> u | None \<Rightarrow> resourceServerUrl A),
                     claims = payload,
                     subject = (case rawOf payload ''sub'' of Str s \<Rightarrow> Some s | _ \<Rightarrow> None) \<rparr>))"

text \<open>A request header is absent, one string, or an array of strings.\<close>

datatype header_value = Single string | Multi "string list"

definition authenticateRequest ::
  "auth_env \<Rightarrow> (string \<rightharpoonup> header_value) \<Rightarrow> thrown + VerifiedAuthInfo" where
  "authenticateRequest A headers =
     (let header = (case headers ''authorization'' of
                      Some h \<Rightarrow> Some h | None \<Rightarrow> headers ''Authorization'')
      in case header of
           None \<Rightarrow> Inl (AuthorizationError ''Missing Authorization header'' 401)
         | Some (Multi hs) \<Rightarrow> Inl (AuthorizationError ''Missing Authorization header'' 401)
         | Some (Single h) \<Rightarrow>
             if h = [] then Inl (AuthorizationError ''Missing Authorization header'' 401)
             else
               (let trimmed = trim h in
                if \<not> startsWith (toLowerCase trimmed) ''bearer ''
                then Inl (AuthorizationError ''Authorization header must be a Bearer token'' 401)
                else verifyBearerToken A (drop (length ''bearer '') trimmed)))"

text \<open>The status of the response that the \<^verbatim>\<open>/mcp\<close> route of
  \<^verbatim>\<open>src/server.ts\<close> sends for what was thrown (lines 290-310).\<close>

definition responseStatus :: "thrown \<Rightarrow> nat" where
  "responseStatus e = (case e of AuthorizationError m st \<Rightarrow> st | JoseError n \<Rightarrow> 500)"

section \<open>The wording of the specification\<close>

text \<open>The text of a raw value, \<^verbatim>\<open>String(v).trim()\<close>, and two readings of "the first
  of these raw fields": the first whose text is not empty, and the first that is
  present (neither \<^verbatim>\<open>null\<close> nor \<^verbatim>\<open>undefined\<close>), whatever its text.\<close>

fun firstNonEmptyText :: "platform \<Rightarrow> (string \<Rightarrow> jsval) \<Rightarrow> string list \<Rightarrow> string" where
  "firstNonEmptyText P raw [] = []"
| "firstNonEmptyText P raw (k # ks) =
     (if \<not> nullish (raw k) \<and> trim (jsString P (raw k)) \<noteq> []
      then trim (jsString P (raw k)) else firstNonEmptyText P raw ks)"

fun firstPresentText :: "platform \<Rightarrow> (string \<Rightarrow> jsval) \<Rightarrow> string list \<Rightarrow> string" where
  "firstPresentText P raw [] = []"
| "firstPresentText P raw (k # ks) =
     (if \<not> nullish (raw k) then trim (jsString P (raw k)) else firstPresentText P raw ks)"

text \<open>The text before the first occurrence of a character, and everything after it.\<close>

definition beforeFirst :: "char \<Rightarrow> string \<Rightarrow> string" where
  "beforeFirst d s = takeWhile (\<lambda>c. c \<noteq> d) s"

definition afterFirst :: "char \<Rightarrow> string \<Rightarrow> string" where
  "afterFirst d s = tl (dropWhile (\<lambda>c. c \<noteq> d) s)"

text \<open>The precedence chain of \<^verbatim>\<open>query\<close>, with "first present" for the aliases.\<close>

definition queryChain :: "platform \<Rightarrow> (string \<Rightarrow> jsval) \<Rightarrow> string \<Rightarrow> string" where
  "queryChain P raw sourceFile =
     (let direct = firstPresentText P raw [''query'', ''keyword'', ''term'', ''search_term''];
          route = firstPresentText P raw [''route''];
          airline = firstPresentText P raw [''airline''];
          season = firstPresentText P raw [''season''];
          other = firstPresentText P raw [''provider'', ''category'', ''topic'']
      in if direct \<noteq> [] then direct
         else if route \<noteq> [] \<or> airline \<noteq> []
           then join '' '' (filter (\<lambda>s. s \<noteq> []) [route, airline, season])
         else if other \<noteq> [] then other
         else sourceFile)"

text \<open>The same chain as the specification words it, with "first non-empty".\<close>

definition queryChainNonEmpty :: "platform \<Rightarrow> (string \<Rightarrow> jsval) \<Rightarrow> string \<Rightarrow> string" where
  "queryChainNonEmpty P raw sourceFile =
     (let direct = firstNonEmptyText P raw [''query'', ''keyword'', ''term'', ''search_term''];
          route = firstNonEmptyText P raw [''route''];
          airline = firstNonEmptyText P raw [''airline''];
          season = firstNonEmptyText P raw [''season''];
          other = firstNonEmptyText P raw [''provider'', ''category'', ''topic'']
      in if direct \<noteq> [] then direct
         else if route \<noteq> [] \<or> airline \<noteq> []
           then join '' '' (filter (\<lambda>s. s \<noteq> []) [route, airline, season])
         else if other \<noteq> [] then other
         else sourceFile)"

text \<open>
  The Jan-4 anchor formula in days: January 4 of year \<open>Y\<close> is day
  \<open>DayFromYear Y + 3\<close>; its weekday counts Sunday as 7; the result lies
  \<open>(1 - weekday) + (W - 1) * 7\<close> days later.
\<close>

definition jan4Formula :: "int \<Rightarrow> int \<Rightarrow> int" where
  "jan4Formula Y W =
     (let jan4 = DayFromYear Y + 3;
          wd = (jan4 + 4) mod 7;
          weekday = (if wd = 0 then 7 else wd)
      in (jan4 + ((1 - weekday) + (W - 1) * 7)) * msPerDay)"

text \<open>Clamping into a range.\<close>

definition clamp :: "int \<Rightarrow> int \<Rightarrow> int \<Rightarrow> int" where
  "clamp lo hi x = (if x < lo then lo else if hi < x then hi else x)"




text \<open>The supported files of a directory and what each contributes to the rows.\<close>

definition supported :: "string \<Rightarrow> bool" where
  "supported p = (SUPPORTED_SUFFIXES (toLowerCase (extname p)) \<noteq> None)"

definition fileRows :: "platform \<Rightarrow> filesystem \<Rightarrow> string \<Rightarrow> TrendRow list" where
  "fileRows P F filePath =
     (case SUPPORTED_SUFFIXES (toLowerCase (extname filePath)) of
        None \<Rightarrow> []
      | Some sfx \<Rightarrow>
          (case loadTrendRowsFromFile P F filePath sfx of Inl e \<Rightarrow> [] | Inr rs \<Rightarrow> rs))"

section \<open>Fixtures\<close>

text \<open>A platform for the examples: strings are compared by their codes, no free-form
  date parses, and the CSV parser knows one document.\<close>

definition codeUnitCompare :: "string \<Rightarrow> string \<Rightarrow> int" where
  "codeUnitCompare a b = (if a = b then 0 else if a < b then - 1 else 1)"

definition sampleCsv :: string where
  "sampleCsv = ''route,airline,snapshot_date'' @ [CHR 0x0A]
     @ ''JFK-LHR,Acme Air,2024-W34'' @ [CHR 0x0A]
     @ ''SFO-NRT,,2024-08-26'' @ [CHR 0x0A]
     @ ''JFK-LHR,,2024-08-19''"

definition sampleRecords :: "(string \<times> string) list list" where
  "sampleRecords =
     [[(''route'', ''JFK-LHR''), (''airline'', ''Acme Air''), (''snapshot_date'', ''2024-W34'')],
      [(''route'', ''SFO-NRT''), (''airline'', []), (''snapshot_date'', ''2024-08-26'')],
      [(''route'', ''JFK-LHR''), (''airline'', []), (''snapshot_date'', ''2024-08-19'')]]"

definition testPlatform :: platform where
  "testPlatform =
     \<lparr> numToString = (\<lambda>n. ''0''), parseFloatFinite = (\<lambda>s. None),
       parseIntFinite = (\<lambda>s. None), dateParse = (\<lambda>s. None),
       localeCompare = codeUnitCompare,
       jsonParse = (\<lambda>s. None),
       csvParse = (\<lambda>s d. if s = sampleCsv \<and> d = CHR '','' then Some sampleRecords else None) \<rparr>"

definition sampleRows :: "TrendRow list" where
  "sampleRows =
     map (\<lambda>record. buildRow testPlatform (rawOf (map (\<lambda>(k, v). (k, Str v)) record))
            ''good.csv'' ''csv'') sampleRecords"

text \<open>A directory with one well-formed CSV file, one JSON file that does not parse, a
  file of another kind and a subdirectory; a directory without data files.\<close>

definition testFs :: filesystem where
  "testFs =
     \<lparr> readdir = (\<lambda>d. if d = ''/data''
                       then Some [\<lparr> name = ''good.csv'', isFile = True \<rparr>,
                                  \<lparr> name = ''bad.json'', isFile = True \<rparr>,
                                  \<lparr> name = ''notes.txt'', isFile = True \<rparr>,
                                  \<lparr> name = ''old.csv'', isFile = False \<rparr>]
                       else if d = ''/empty''
                       then Some [\<lparr> name = ''README.md'', isFile = True \<rparr>]
                       else None),
       readFile = (\<lambda>p. if p = ''/data/good.csv'' then Some sampleCsv
                        else if p = ''/data/bad.json'' then Some ''{''
                        else None),
       resolve = (\<lambda>d. d) \<rparr>"

definition noFilters :: AirfareTrendFilters where
  "noFilters =
     \<lparr> snapshotDate = None, routeContains = None, originAirport = None,
       destinationAirport = None, airlineContains = None, seasonContains = None,
       notableContains = None, limit = None \<rparr>"

definition testAuth :: auth_env where
  "testAuth =
     \<lparr> jwtVerify = (\<lambda>t. if t = ''good'' then Inr [(''scope'', Str ''openid profile email'')]
                         else if t = ''narrow'' then Inr [(''scope'', Str ''openid'')]
                         else Inl ''JWSSignatureVerificationFailed''),
       parseUrl = (\<lambda>s. Some s),
       resourceServerUrl = ''https://mcp.example.com/'' \<rparr>"

section \<open>Strings\<close>

lemma last_dropWhile: "dropWhile Q xs \<noteq> [] \<Longrightarrow> last (dropWhile Q xs) = last xs"
  by (induction xs) (auto split: if_splits)

lemma trim_last: "trim s \<noteq> [] \<Longrightarrow> \<not> isSpace (last (trim s))"
proof -
  assume "trim s \<noteq> []"
  then have ne: "dropWhile isSpace (rev (dropWhile isSpace s)) \<noteq> []"
    by (simp add: trim_def)
  have "last (trim s) = hd (dropWhile isSpace (rev (dropWhile isSpace s)))"
    using ne by (simp add: trim_def last_rev)
  then show ?thesis using hd_dropWhile [OF ne] by simp
qed

lemma trim_hd: "trim s \<noteq> [] \<Longrightarrow> \<not> isSpace (hd (trim s))"
proof -
  assume "trim s \<noteq> []"
  then have ne: "dropWhile isSpace (rev (dropWhile isSpace s)) \<noteq> []"
    by (simp add: trim_def)
  then have ne2: "dropWhile isSpace s \<noteq> []"
    by (cases "dropWhile isSpace s") simp_all
  have "hd (trim s) = last (dropWhile isSpace (rev (dropWhile isSpace s)))"
    using ne by (simp add: trim_def hd_rev)
  also have "\<dots> = last (rev (dropWhile isSpace s))"
    using ne by (rule last_dropWhile)
  also have "\<dots> = hd (dropWhile isSpace s)"
    using ne2 by (simp add: last_rev)
  finally show ?thesis using hd_dropWhile [OF ne2] by simp
qed

lemma trim_fixed: "s \<noteq> [] \<Longrightarrow> \<not> isSpace (hd s) \<Longrightarrow> \<not> isSpace (last s) \<Longrightarrow> trim s = s"
proof -
  assume a: "s \<noteq> []" "\<not> isSpace (hd s)" "\<not> isSpace (last s)"
  then have 1: "dropWhile isSpace s = s" by (cases s) auto
  from a have "rev s \<noteq> []" "\<not> isSpace (hd (rev s))" by (simp_all add: hd_rev)
  then have "dropWhile isSpace (rev s) = rev s" by (cases "rev s") auto
  with 1 show ?thesis by (simp add: trim_def)
qed

text \<open>The space-joined non-empty trimmed parts need no further trimming.\<close>

lemma trim_join3:
  shows "trim (join '' '' (filter (\<lambda>s. s \<noteq> []) [trim a0, trim b0, trim c0]))
           = join '' '' (filter (\<lambda>s. s \<noteq> []) [trim a0, trim b0, trim c0])"
    (is "trim ?j = ?j")
proof (cases "?j = []")
  case True
  then show ?thesis by (simp add: trim_def)
next
  case False
  have h: "\<not> isSpace (hd ?j)"
    using False trim_hd [of a0] trim_hd [of b0] trim_hd [of c0]
    by (auto simp: hd_append)
  have l: "\<not> isSpace (last ?j)"
    using False trim_last [of a0] trim_last [of b0] trim_last [of c0]
    by (auto simp: last_append)
  show ?thesis using False h l by (rule trim_fixed)
qed

lemma join3_nonempty:
  "a \<noteq> [] \<or> b \<noteq> [] \<Longrightarrow> join '' '' (filter (\<lambda>s. s \<noteq> []) [a, b, c]) \<noteq> []"
  by auto


section \<open>Rows\<close>

lemma setNum_apply:
  "setNum key x row k =
     (if k = key then (case x of None \<Rightarrow> row k | Some n \<Rightarrow> Some (Num n)) else row k)"
  by (simp add: setNum_def split: option.splits)

lemma setStr_apply:
  "setStr key s row k = (if k = key \<and> s \<noteq> [] then Some (Str s) else row k)"
  by (simp add: setStr_def)

lemma copyKey_apply:
  "copyKey raw row key k =
     (if k = key \<and> raw key \<noteq> Undefined \<and> raw key \<noteq> Null \<and> raw key \<noteq> Str []
      then Some (raw key) else row k)"
  by (simp add: copyKey_def Let_def)

lemma setRoute_other:
  "k \<noteq> ''route'' \<Longrightarrow> k \<noteq> ''origin_airport'' \<Longrightarrow> k \<noteq> ''destination_airport'' \<Longrightarrow>
   setRoute route row k = row k"
  by (simp add: setRoute_def Let_def setStr_apply)

lemma if_fun_apply: "(if c then f else g) k = (if c then f k else g k)"
  by simp

lemma text_of_1:
  "trim (jsString P (coalesce [raw a] (Str []))) = firstPresentText P raw [a]"
  by (simp add: trim_def)

lemma text_of_3:
  "trim (jsString P (coalesce [raw a, raw b, raw c] (Str []))) = firstPresentText P raw [a, b, c]"
  by (simp add: trim_def)

lemma text_of_4:
  "trim (jsString P (coalesce [raw a, raw b, raw c, raw d] (Str [])))
     = firstPresentText P raw [a, b, c, d]"
  by (simp add: trim_def)

lemma baseRow_query: "baseRow P raw f fmt ''query'' = Some (Str (rowQuery P raw f))"
  by (simp add: baseRow_def Let_def)

lemma baseRow_date:
  "baseRow P raw f fmt ''date'' =
     Some (Str (if firstPresentText P raw [''snapshot_date''] \<noteq> []
                then firstPresentText P raw [''snapshot_date'']
                else firstPresentText P raw [''date'', ''week'', ''week_id'', ''period'']))"
  unfolding baseRow_def Let_def text_of_1 text_of_4 by simp

lemma baseRow_snapshot_date: "baseRow P raw f fmt ''snapshot_date'' = baseRow P raw f fmt ''date''"
  unfolding baseRow_def Let_def by simp

lemma baseRow_absent:
  "k \<notin> {''query'', ''date'', ''snapshot_date'', ''region'', ''search_index'', ''branding_mix'',
         ''notable_event'', ''source_file'', ''source_format''} \<Longrightarrow> baseRow P raw f fmt k = None"
  unfolding baseRow_def Let_def by simp

lemmas buildRow_simps =
  buildRow_def Let_def setNum_apply setStr_apply setRoute_other copyKey_apply
  OPTIONAL_COPY_KEYS_def if_fun_apply text_of_1

lemma buildRow_query: "buildRow P raw f fmt ''query'' = Some (Str (rowQuery P raw f))"
  by (simp add: buildRow_simps baseRow_query
        del: coalesce.simps firstPresentText.simps split del: if_split cong: if_cong)

lemma buildRow_date:
  "buildRow P raw f fmt ''date'' =
     Some (Str (if firstPresentText P raw [''snapshot_date''] \<noteq> []
                then firstPresentText P raw [''snapshot_date'']
                else firstPresentText P raw [''date'', ''week'', ''week_id'', ''period'']))"
  by (simp add: buildRow_simps baseRow_date
        del: coalesce.simps firstPresentText.simps split del: if_split cong: if_cong)

lemma buildRow_snapshot_date:
  "buildRow P raw f fmt ''snapshot_date'' = buildRow P raw f fmt ''date''"
  by (simp add: buildRow_simps baseRow_snapshot_date
        del: coalesce.simps firstPresentText.simps split del: if_split cong: if_cong)

lemma buildRow_airline:
  "buildRow P raw f fmt ''airline'' =
     (if firstPresentText P raw [''airline''] \<noteq> []
      then Some (Str (firstPresentText P raw [''airline''])) else None)"
  by (simp add: buildRow_simps baseRow_absent
        del: coalesce.simps firstPresentText.simps split del: if_split cong: if_cong)

lemma buildRow_season:
  "buildRow P raw f fmt ''season'' =
     (if firstPresentText P raw [''season''] \<noteq> []
      then Some (Str (firstPresentText P raw [''season''])) else None)"
  by (simp add: buildRow_simps baseRow_absent
        del: coalesce.simps firstPresentText.simps split del: if_split cong: if_cong)

lemma query_core:
  assumes "r \<noteq> [] \<or> a \<noteq> [] \<Longrightarrow> trim J = J" and "r \<noteq> [] \<or> a \<noteq> [] \<Longrightarrow> J \<noteq> []"
  shows "(if (if q0 = []
              then if (if r \<noteq> [] \<or> a \<noteq> [] then trim J else q0) = [] then other
                   else (if r \<noteq> [] \<or> a \<noteq> [] then trim J else q0)
              else q0) \<noteq> []
          then (if q0 = []
              then if (if r \<noteq> [] \<or> a \<noteq> [] then trim J else q0) = [] then other
                   else (if r \<noteq> [] \<or> a \<noteq> [] then trim J else q0)
              else q0)
          else f)
       = (if q0 \<noteq> [] then q0 else if r \<noteq> [] \<or> a \<noteq> [] then J
          else if other \<noteq> [] then other else f)"
  using assms by (cases "q0 = []"; cases "r \<noteq> [] \<or> a \<noteq> []"; cases "other = []") simp_all

lemma rowQuery_chain: "rowQuery P raw f = queryChain P raw f"
proof -
  let ?r = "firstPresentText P raw [''route'']"
  let ?a = "firstPresentText P raw [''airline'']"
  let ?s = "firstPresentText P raw [''season'']"
  have tj: "?r \<noteq> [] \<or> ?a \<noteq> [] \<Longrightarrow>
    trim (join '' '' (filter (\<lambda>s. s \<noteq> []) [?r, ?a, ?s]))
      = join '' '' (filter (\<lambda>s. s \<noteq> []) [?r, ?a, ?s])"
    unfolding text_of_1 [symmetric] by (rule trim_join3)
  show ?thesis
    unfolding rowQuery_def queryChain_def text_of_1 text_of_3 text_of_4 Let_def
    by (rule query_core) (use tj join3_nonempty [of ?r ?a ?s] in blast)+
qed


lemma splitOn_first:
  "splitOn d s = beforeFirst d s # (if d \<in> set s then splitOn d (afterFirst d s) else [])"
proof (induction s)
  case Nil
  show ?case by (simp add: beforeFirst_def)
next
  case (Cons c s)
  show ?case
  proof (cases "c = d")
    case True
    then show ?thesis by (simp add: beforeFirst_def afterFirst_def)
  next
    case False
    then show ?thesis
      using Cons.IH by (simp add: beforeFirst_def afterFirst_def)
  qed
qed

lemma splitLimit_two:
  assumes "d \<in> set s"
  shows "splitLimit d 2 s = [beforeFirst d s, beforeFirst d (afterFirst d s)]"
proof -
  have "splitOn d s = beforeFirst d s # splitOn d (afterFirst d s)"
    using assms splitOn_first [of d s] by simp
  moreover obtain rest where "splitOn d (afterFirst d s) = beforeFirst d (afterFirst d s) # rest"
    using splitOn_first [of d "afterFirst d s"] by simp
  ultimately show ?thesis
    by (simp add: splitLimit_def numeral_2_eq_2)
qed

lemma setRoute_dash:
  assumes "CHR ''-'' \<in> set r"
  shows "setRoute r row =
           setStr ''destination_airport'' (trim (beforeFirst (CHR ''-'') (afterFirst (CHR ''-'') r)))
             (setStr ''origin_airport'' (trim (beforeFirst (CHR ''-'') r))
               (row(''route'' \<mapsto> Str r)))"
proof -
  from assms have "r \<noteq> []" by auto
  then show ?thesis
    using assms by (simp add: setRoute_def Let_def splitLimit_two)
qed

lemma row1_route_keys:
  assumes "k = ''route'' \<or> k = ''origin_airport'' \<or> k = ''destination_airport''"
  shows "foldl (copyKey raw) (baseRow P raw f fmt) OPTIONAL_COPY_KEYS k = None"
  using assms
  by (elim disjE) (simp_all add: copyKey_apply OPTIONAL_COPY_KEYS_def baseRow_absent)

lemma buildRow_route_keys:
  assumes "k = ''route'' \<or> k = ''origin_airport'' \<or> k = ''destination_airport''"
  shows "buildRow P raw f fmt k =
           setRoute (firstPresentText P raw [''route''])
             (foldl (copyKey raw) (baseRow P raw f fmt) OPTIONAL_COPY_KEYS) k"
  using assms
  by (elim disjE)
     (simp_all add: buildRow_def Let_def setNum_apply setStr_apply if_fun_apply text_of_1
        del: coalesce.simps firstPresentText.simps foldl_Cons split del: if_split cong: if_cong)

lemma firstPresent_single: "firstPresentText P raw [k] = firstNonEmptyText P raw [k]"
  by simp

lemma firstPresent_eq_nonEmpty:
  "(\<forall>k\<in>set ks. nullish (raw k) \<or> trim (jsString P (raw k)) \<noteq> []) \<Longrightarrow>
   firstPresentText P raw ks = firstNonEmptyText P raw ks"
  by (induction ks) auto


text \<open>
  Claim C5, as the code has it. The canonical \<open>date\<close> is the trimmed raw
  \<open>snapshot_date\<close> when that is not empty, else the trimmed text of the first of the raw
  fields \<open>date\<close>, \<open>week\<close>, \<open>week_id\<close>, \<open>period\<close> that is present (neither
  \<^verbatim>\<open>null\<close> nor \<^verbatim>\<open>undefined\<close>), empty or not; \<open>snapshot_date\<close> has the same
  value. When no present alias is blank this is the first non-empty value of the five
  fields, as the claim words it.
\<close>

theorem buildRow_date_fields:
  fixes P raw sourceFile sourceFormat
  defines "row \<equiv> buildRow P raw sourceFile sourceFormat"
    and "snap \<equiv> firstPresentText P raw [''snapshot_date'']"
    and "fallback \<equiv> firstPresentText P raw [''date'', ''week'', ''week_id'', ''period'']"
  shows "getProp row ''date'' = Str (if snap \<noteq> [] then snap else fallback)
       \<and> getProp row ''snapshot_date'' = Str (if snap \<noteq> [] then snap else fallback)
       \<and> ((\<forall>k\<in>set [''date'', ''week'', ''week_id'', ''period''].
              nullish (raw k) \<or> trim (jsString P (raw k)) \<noteq> []) \<longrightarrow>
            getProp row ''date'' = Str (firstNonEmptyText P raw
              [''snapshot_date'', ''date'', ''week'', ''week_id'', ''period'']))"
proof -
  have d: "getProp row ''date'' = Str (if snap \<noteq> [] then snap else fallback)"
    by (simp add: getProp_def row_def snap_def fallback_def buildRow_date
          del: firstPresentText.simps)
  have s: "getProp row ''snapshot_date'' = getProp row ''date''"
    by (simp add: getProp_def row_def buildRow_snapshot_date)
  have n: "(if snap \<noteq> [] then snap else fallback)
             = firstNonEmptyText P raw [''snapshot_date'', ''date'', ''week'', ''week_id'', ''period'']"
    if "\<forall>k\<in>set [''date'', ''week'', ''week_id'', ''period''].
          nullish (raw k) \<or> trim (jsString P (raw k)) \<noteq> []"
  proof -
    have "fallback = firstNonEmptyText P raw [''date'', ''week'', ''week_id'', ''period'']"
      unfolding fallback_def using that by (rule firstPresent_eq_nonEmpty)
    then show ?thesis by (simp add: snap_def)
  qed
  show ?thesis using d s n by simp
qed

theorem buildRow_date_fields_witness:
  "getProp (buildRow testPlatform
      (rawOf [(''snapshot_date'', Str []), (''week'', Str '' 2024-W34 ''), (''period'', Str ''Q3'')])
      ''fares.csv'' ''csv'') ''date'' = Str ''2024-W34''"
  using buildRow_date_fields [of testPlatform
      "rawOf [(''snapshot_date'', Str []), (''week'', Str '' 2024-W34 ''), (''period'', Str ''Q3'')]"
      "''fares.csv''" "''csv''"]
  by (simp add: rawOf_def nullish_def trim_def isSpace_def)

text \<open>A present but empty \<open>date\<close> hides a non-empty \<open>week\<close>.\<close>

theorem buildRow_date_counterexample:
  "getProp (buildRow testPlatform (rawOf [(''date'', Str []), (''week'', Str ''2024-W34'')])
      ''fares.csv'' ''csv'') ''date'' = Str []
   \<and> firstNonEmptyText testPlatform (rawOf [(''date'', Str []), (''week'', Str ''2024-W34'')])
        [''snapshot_date'', ''date'', ''week'', ''week_id'', ''period''] = ''2024-W34''"
  by (simp add: getProp_def buildRow_date rawOf_def nullish_def trim_def isSpace_def)

lemma csv_example:
  "map (getProp (buildRow P
      (rawOf [(''route'', Str ''JFK-LHR''), (''airline'', Str ''Acme Air''), (''season'', Str ''Summer'')])
      f ''csv'')) [''route'', ''origin_airport'', ''destination_airport'', ''airline'', ''season'', ''query'']
     = [Str ''JFK-LHR'', Str ''JFK'', Str ''LHR'', Str ''Acme Air'', Str ''Summer'',
        Str ''JFK-LHR Acme Air Summer'']"
  by (simp add: getProp_def buildRow_route_keys buildRow_airline buildRow_season buildRow_query
        rowQuery_chain queryChain_def setRoute_def setStr_def splitLimit_def Let_def
        copyKey_apply OPTIONAL_COPY_KEYS_def baseRow_absent
        rawOf_def nullish_def trim_def isSpace_def)

text \<open>
  Claim C6, as the code has it. For a raw record whose trimmed \<open>route\<close> contains a
  \<open>-\<close>, the row keeps the route, \<open>origin_airport\<close> is the trimmed text before the first
  \<open>-\<close> and \<open>destination_airport\<close> is the trimmed text between the first and the second
  \<open>-\<close> (everything after the first one when there is no second); an empty part is not
  set. The CSV row of the claim yields the six values the claim lists.
\<close>

theorem buildRow_route_split:
  fixes P raw sourceFile sourceFormat
  defines "row \<equiv> buildRow P raw sourceFile sourceFormat"
    and "r \<equiv> firstPresentText P raw [''route'']"
  assumes dash: "CHR ''-'' \<in> set r"
  shows "getProp row ''route'' = Str r
       \<and> getProp row ''origin_airport'' =
           (if trim (beforeFirst (CHR ''-'') r) \<noteq> []
            then Str (trim (beforeFirst (CHR ''-'') r)) else Undefined)
       \<and> getProp row ''destination_airport'' =
           (if trim (beforeFirst (CHR ''-'') (afterFirst (CHR ''-'') r)) \<noteq> []
            then Str (trim (beforeFirst (CHR ''-'') (afterFirst (CHR ''-'') r))) else Undefined)
       \<and> (CHR ''-'' \<notin> set (afterFirst (CHR ''-'') r) \<longrightarrow>
            beforeFirst (CHR ''-'') (afterFirst (CHR ''-'') r) = afterFirst (CHR ''-'') r)
       \<and> map (getProp (buildRow P'
              (rawOf [(''route'', Str ''JFK-LHR''), (''airline'', Str ''Acme Air''),
                      (''season'', Str ''Summer'')]) f' ''csv''))
            [''route'', ''origin_airport'', ''destination_airport'', ''airline'', ''season'',
             ''query'']
           = [Str ''JFK-LHR'', Str ''JFK'', Str ''LHR'', Str ''Acme Air'', Str ''Summer'',
              Str ''JFK-LHR Acme Air Summer'']"
proof -
  let ?row1 = "foldl (copyKey raw) (baseRow P raw sourceFile sourceFormat) OPTIONAL_COPY_KEYS"
  have k: "row k = setRoute r ?row1 k"
    if "k = ''route'' \<or> k = ''origin_airport'' \<or> k = ''destination_airport''" for k
    unfolding row_def r_def using that by (rule buildRow_route_keys)
  have 1: "getProp row ''route'' = Str r"
    by (simp add: getProp_def k setRoute_dash [OF dash] setStr_apply)
  have 2: "getProp row ''origin_airport'' =
           (if trim (beforeFirst (CHR ''-'') r) \<noteq> []
            then Str (trim (beforeFirst (CHR ''-'') r)) else Undefined)"
    by (simp add: getProp_def k setRoute_dash [OF dash] setStr_apply row1_route_keys)
  have 3: "getProp row ''destination_airport'' =
           (if trim (beforeFirst (CHR ''-'') (afterFirst (CHR ''-'') r)) \<noteq> []
            then Str (trim (beforeFirst (CHR ''-'') (afterFirst (CHR ''-'') r))) else Undefined)"
    by (simp add: getProp_def k setRoute_dash [OF dash] setStr_apply row1_route_keys)
  have 4: "CHR ''-'' \<notin> set (afterFirst (CHR ''-'') r) \<longrightarrow>
            beforeFirst (CHR ''-'') (afterFirst (CHR ''-'') r) = afterFirst (CHR ''-'') r"
    by (auto simp: beforeFirst_def)
  show ?thesis using 1 2 3 4 csv_example [of P' f'] by blast
qed

theorem buildRow_route_split_witness:
  "map (getProp (buildRow testPlatform
      (rawOf [(''route'', Str ''JFK-LHR''), (''airline'', Str ''Acme Air''), (''season'', Str ''Summer'')])
      ''fares.csv'' ''csv'')) [''route'', ''origin_airport'', ''destination_airport'']
     = [Str ''JFK-LHR'', Str ''JFK'', Str ''LHR'']"
  using buildRow_route_split [of testPlatform
      "rawOf [(''route'', Str ''JFK-LHR''), (''airline'', Str ''Acme Air''), (''season'', Str ''Summer'')]"
      "''fares.csv''" "''csv''"]
  by (simp add: rawOf_def nullish_def trim_def isSpace_def beforeFirst_def afterFirst_def)

text \<open>With two dashes the destination is the middle part, not everything after the
  first dash.\<close>

theorem buildRow_route_split_counterexample:
  "getProp (buildRow testPlatform (rawOf [(''route'', Str ''JFK-LHR-CDG'')]) ''fares.csv'' ''csv'')
      ''destination_airport'' = Str ''LHR''
   \<and> trim (afterFirst (CHR ''-'') (firstPresentText testPlatform
        (rawOf [(''route'', Str ''JFK-LHR-CDG'')]) [''route''])) = ''LHR-CDG''"
  by (simp add: getProp_def buildRow_route_keys setRoute_def setStr_def splitLimit_def Let_def
        copyKey_apply OPTIONAL_COPY_KEYS_def baseRow_absent
        rawOf_def nullish_def trim_def isSpace_def afterFirst_def)


lemma queryChain_nonempty: "sourceFile \<noteq> [] \<Longrightarrow> queryChain P raw sourceFile \<noteq> []"
  unfolding queryChain_def Let_def
  using join3_nonempty [of "firstPresentText P raw [''route'']" "firstPresentText P raw [''airline'']"
      "firstPresentText P raw [''season'']"]
  by (simp del: firstPresentText.simps join.simps filter.simps)

lemma queryChain_agree:
  assumes "\<forall>k\<in>set [''query'', ''keyword'', ''term'', ''search_term'',
                    ''provider'', ''category'', ''topic''].
             nullish (raw k) \<or> trim (jsString P (raw k)) \<noteq> []"
  shows "queryChain P raw sourceFile = queryChainNonEmpty P raw sourceFile"
proof -
  have 1: "firstPresentText P raw [''query'', ''keyword'', ''term'', ''search_term'']
         = firstNonEmptyText P raw [''query'', ''keyword'', ''term'', ''search_term'']"
    using assms by (intro firstPresent_eq_nonEmpty) simp
  have 2: "firstPresentText P raw [''provider'', ''category'', ''topic'']
         = firstNonEmptyText P raw [''provider'', ''category'', ''topic'']"
    using assms by (intro firstPresent_eq_nonEmpty) simp
  show ?thesis
    unfolding queryChain_def queryChainNonEmpty_def 1 2 firstPresent_single ..
qed

text \<open>
  Claim C9, as the code has it. For a source file name that is not empty the
  \<open>query\<close> of the built row is a non-empty string: the trimmed text of the first present
  of the raw \<open>query\<close>, \<open>keyword\<close>, \<open>term\<close>, \<open>search_term\<close> when that text is not
  empty; else, when the trimmed route or airline is not empty, the space-joined non-empty
  values of route, airline, season; else the trimmed text of the first present of
  \<open>provider\<close>, \<open>category\<close>, \<open>topic\<close> when not empty; else the source file name. When
  no present alias is blank this is the chain of first non-empty values of the claim.
\<close>

theorem buildRow_query_chain:
  assumes "sourceFile \<noteq> []"
  shows "getProp (buildRow P raw sourceFile sourceFormat) ''query'' = Str (queryChain P raw sourceFile)
       \<and> queryChain P raw sourceFile \<noteq> []
       \<and> ((\<forall>k\<in>set [''query'', ''keyword'', ''term'', ''search_term'',
                      ''provider'', ''category'', ''topic''].
              nullish (raw k) \<or> trim (jsString P (raw k)) \<noteq> []) \<longrightarrow>
            queryChain P raw sourceFile = queryChainNonEmpty P raw sourceFile)"
  using assms queryChain_nonempty [of sourceFile P raw] queryChain_agree [of raw P sourceFile]
  by (simp add: getProp_def buildRow_query rowQuery_chain)

theorem buildRow_query_chain_witness:
  "getProp (buildRow testPlatform (rawOf [(''keyword'', Str '' cheap flights '')]) ''fares.csv'' ''csv'')
      ''query'' = Str ''cheap flights''
   \<and> getProp (buildRow testPlatform (rawOf [(''topic'', Null)]) ''fares.csv'' ''csv'')
      ''query'' = Str ''fares.csv''"
  using buildRow_query_chain [of "''fares.csv''" testPlatform
          "rawOf [(''keyword'', Str '' cheap flights '')]" "''csv''"]
        buildRow_query_chain [of "''fares.csv''" testPlatform "rawOf [(''topic'', Null)]" "''csv''"]
  by (simp add: queryChain_def rawOf_def nullish_def trim_def isSpace_def)

text \<open>A present but empty \<open>query\<close> hides a non-empty \<open>keyword\<close>.\<close>

theorem buildRow_query_chain_counterexample:
  "getProp (buildRow testPlatform (rawOf [(''query'', Str []), (''keyword'', Str ''fares'')])
      ''fares.csv'' ''csv'') ''query'' = Str ''fares.csv''
   \<and> queryChainNonEmpty testPlatform (rawOf [(''query'', Str []), (''keyword'', Str ''fares'')])
        ''fares.csv'' = ''fares''"
  by (simp add: getProp_def buildRow_query rowQuery_chain queryChain_def queryChainNonEmpty_def
        rawOf_def nullish_def trim_def isSpace_def)

section \<open>Dates\<close>

lemma digit_not_space: "isDigit c \<Longrightarrow> \<not> isSpace c"
  by (auto simp: isDigit_def isSpace_def)

lemma MakeDay_january: "MakeDay y 0 d = DayFromYear y + d - 1"
  by (simp add: MakeDay_def monthStart_def)

lemma getUTCDay_days: "getUTCDay (n * msPerDay) = (n + 4) mod 7"
  by (simp add: getUTCDay_def msPerDay_def)

lemma weekMonday_formula: "weekMonday year week = jan4Formula (fullYear year) week"
proof -
  have j: "DateUTC year 0 4 = (DayFromYear (fullYear year) + 3) * msPerDay"
    by (simp add: DateUTC_def MakeDay_january)
  show ?thesis
    unfolding weekMonday_def jan4Formula_def j getUTCDay_days Let_def MakeDay_january
    by simp
qed

lemma mod7_one: "x = 7 * k + 1 \<Longrightarrow> (x::int) mod 7 = 1"
  by simp

lemma jan4Formula_monday: "getUTCDay (jan4Formula Y W) = 1"
proof -
  define j where "j = DayFromYear Y + 3"
  define m where "m = (j + 4) mod 7"
  define q where "q = (j + 4) div 7"
  have jq: "j = 7 * q + m - 4"
    unfolding m_def q_def by simp
  have "(j + (1 - (if m = 0 then 7 else m) + (W - 1) * 7) + 4) mod 7 = 1"
  proof (cases "m = 0")
    case True
    show ?thesis
      by (rule mod7_one [where k = "q + W - 2"]) (use jq True in simp)
  next
    case False
    show ?thesis
      by (rule mod7_one [where k = "q + W - 1"]) (use jq False in simp)
  qed
  then show ?thesis
    unfolding jan4Formula_def Let_def getUTCDay_days j_def m_def by simp
qed

lemma matchWeek_form:
  assumes "list_all isDigit [y1, y2, y3, y4, w1, w2]" and "w = CHR ''W'' \<or> w = CHR ''w''"
  shows "matchWeek [y1, y2, y3, y4, CHR ''-'', w, w1, w2]
           = Some (parseInt10 [y1, y2, y3, y4], parseInt10 [w1, w2])"
  using assms by (auto simp: matchWeek_def)

lemma parseIsoDate_week:
  assumes "list_all isDigit [y1, y2, y3, y4, w1, w2]" and "w = CHR ''W'' \<or> w = CHR ''w''"
  shows "parseIsoDate P (Some [y1, y2, y3, y4, CHR ''-'', w, w1, w2])
           = Some (weekMonday (parseInt10 [y1, y2, y3, y4]) (parseInt10 [w1, w2]))"
proof -
  let ?s = "[y1, y2, y3, y4, CHR ''-'', w, w1, w2]"
  have "trim ?s = ?s"
    using assms by (intro trim_fixed) (simp_all add: digit_not_space)
  moreover have "matchDate ?s = None"
    by (simp add: matchDate_def)
  ultimately show ?thesis
    using matchWeek_form [OF assms] by (simp add: parseIsoDate_def Let_def)
qed


lemma parseIsoDate_2024_W34:
  "parseIsoDate P (Some ''2024-W34'') = Some 1724025600000"
  by (simp add: parseIsoDate_week isDigit_def weekMonday_formula jan4Formula_def fullYear_def
        parseInt10_def digitVal_def DayFromYear_def msPerDay_def Let_def)

lemma parseIsoDate_2024_08_19:
  "parseIsoDate P (Some ''2024-08-19'') = Some 1724025600000"
  by (simp add: parseIsoDate_def matchDate_def trim_def isSpace_def isDigit_def
        DateUTC_def MakeDay_def monthStart_def InLeapYear_def fullYear_def
        parseInt10_def digitVal_def DayFromYear_def msPerDay_def Let_def)

lemma parseIsoDate_2024_08_20:
  "parseIsoDate P (Some ''2024-08-20'') = Some 1724112000000"
  by (simp add: parseIsoDate_def matchDate_def trim_def isSpace_def isDigit_def
        DateUTC_def MakeDay_def monthStart_def InLeapYear_def fullYear_def
        parseInt10_def digitVal_def DayFromYear_def msPerDay_def Let_def)

lemma normFilter_None: "normFilter None = []"
  by (simp add: normFilter_def trim_def toLowerCase_def)

lemma rowMatches_only_snapshot:
  "rowMatches P (noFilters\<lparr>snapshotDate := Some d\<rparr>) row
     = (parseIsoDate P (Some d) = None \<or> parseIsoDate P (snapshotOf row) = parseIsoDate P (Some d))"
  by (simp add: rowMatches_def noFilters_def normFilter_None Let_def)

text \<open>
  Claim C4, as the code has it. A string \<open>YYYY-Www\<close> (the \<open>W\<close> in either case) is
  resolved by the Jan-4 anchor formula applied to the year as \<^verbatim>\<open>Date.UTC\<close> reads
  it: the year itself from 0100 on, and 1900 plus the year for 0000 to 0099. The day it
  gives is a Monday. \<open>2024-W34\<close> resolves to the day of \<open>2024-08-19\<close>, so a row with that
  snapshot date matches a filter naming that Monday and no filter naming the next day.
\<close>

theorem parseIsoDate_week_anchor:
  fixes y1 y2 y3 y4 w w1 w2 :: char and P :: platform and row :: TrendRow
  defines "Y \<equiv> parseInt10 [y1, y2, y3, y4]" and "W \<equiv> parseInt10 [w1, w2]"
  assumes digits: "list_all isDigit [y1, y2, y3, y4, w1, w2]"
    and w: "w = CHR ''W'' \<or> w = CHR ''w''"
  shows "parseIsoDate P (Some [y1, y2, y3, y4, CHR ''-'', w, w1, w2])
           = Some (jan4Formula (fullYear Y) W)
       \<and> (100 \<le> Y \<longrightarrow> parseIsoDate P (Some [y1, y2, y3, y4, CHR ''-'', w, w1, w2])
                          = Some (jan4Formula Y W))
       \<and> (Y \<le> 99 \<longrightarrow> parseIsoDate P (Some [y1, y2, y3, y4, CHR ''-'', w, w1, w2])
                          = Some (jan4Formula (1900 + Y) W))
       \<and> getUTCDay (jan4Formula (fullYear Y) W) = 1
       \<and> parseIsoDate P (Some ''2024-W34'') = parseIsoDate P (Some ''2024-08-19'')
       \<and> (getProp row ''snapshot_date'' = Str ''2024-W34'' \<longrightarrow>
            rowMatches P (noFilters\<lparr>snapshotDate := Some ''2024-08-19''\<rparr>) row
            \<and> \<not> rowMatches P (noFilters\<lparr>snapshotDate := Some ''2024-08-20''\<rparr>) row)"
proof -
  have 1: "parseIsoDate P (Some [y1, y2, y3, y4, CHR ''-'', w, w1, w2])
             = Some (jan4Formula (fullYear Y) W)"
    unfolding Y_def W_def using parseIsoDate_week [OF digits w] by (simp add: weekMonday_formula)
  have nonneg: "0 \<le> Y"
    unfolding Y_def by (auto simp: parseInt10_def digitVal_def split: option.splits)
  have 2: "100 \<le> Y \<longrightarrow> fullYear Y = Y" and 3: "Y \<le> 99 \<longrightarrow> fullYear Y = 1900 + Y"
    using nonneg by (simp_all add: fullYear_def)
  have 4: "getProp row ''snapshot_date'' = Str ''2024-W34'' \<longrightarrow>
            rowMatches P (noFilters\<lparr>snapshotDate := Some ''2024-08-19''\<rparr>) row
            \<and> \<not> rowMatches P (noFilters\<lparr>snapshotDate := Some ''2024-08-20''\<rparr>) row"
    by (simp add: rowMatches_only_snapshot snapshotOf_def parseIsoDate_2024_W34
          parseIsoDate_2024_08_19 parseIsoDate_2024_08_20)
  show ?thesis
    using 1 2 3 4 jan4Formula_monday [of "fullYear Y" W]
    by (simp add: parseIsoDate_2024_W34 parseIsoDate_2024_08_19)
qed

theorem parseIsoDate_week_anchor_witness:
  "parseIsoDate testPlatform (Some ''1999-w52'') = Some (jan4Formula 1999 52)
   \<and> parseIsoDate testPlatform (Some ''0099-W01'') = Some (jan4Formula 1999 1)"
  using parseIsoDate_week_anchor [of "CHR ''1''" "CHR ''9''" "CHR ''9''" "CHR ''9''"
          "CHR ''5''" "CHR ''2''" "CHR ''w''" testPlatform Map.empty]
        parseIsoDate_week_anchor [of "CHR ''0''" "CHR ''0''" "CHR ''9''" "CHR ''9''"
          "CHR ''0''" "CHR ''1''" "CHR ''W''" testPlatform Map.empty]
  by (simp add: isDigit_def parseInt10_def digitVal_def fullYear_def)

text \<open>For a year below 0100 the anchor is January 4 of 1900 plus that year, not of the
  year written.\<close>

theorem parseIsoDate_week_anchor_counterexample:
  "parseIsoDate testPlatform (Some ''0050-W01'') = Some (- 631065600000)
   \<and> jan4Formula 50 1 = - 60589123200000"
  by (simp add: parseIsoDate_week isDigit_def weekMonday_formula jan4Formula_def fullYear_def
        parseInt10_def digitVal_def DayFromYear_def msPerDay_def Let_def)


section \<open>Queries\<close>

lemma parseIsoDate_unparsable:
  assumes "matchDate (trim s) = None" "matchWeek (trim s) = None" "dateParse P (trim s) = None"
  shows "parseIsoDate P (Some s) = None"
  using assms by (simp add: parseIsoDate_def Let_def)

lemma rowMatches_no_snapshot:
  assumes "parseIsoDate P (snapshotDate c) = None"
  shows "rowMatches P c = rowMatches P (c\<lparr>snapshotDate := None\<rparr>)"
proof
  fix row
  have "parseIsoDate P None = None" by (simp add: parseIsoDate_def)
  then show "rowMatches P c row = rowMatches P (c\<lparr>snapshotDate := None\<rparr>) row"
    using assms by (simp add: rowMatches_def Let_def)
qed

text \<open>
  Claim C10. A \<open>snapshotDate\<close> that is present and fails the exact-date form, the
  ISO-week form and the free-form parse is silently ignored: every row passes the
  predicate exactly as if the filter were absent, so the query returns the rows and
  the counts of the query without it.
\<close>

theorem unparsable_snapshot_filter_ignored:
  assumes "snapshotDate c = Some s"
    and "matchDate (trim s) = None" and "matchWeek (trim s) = None"
    and "dateParse P (trim s) = None"
  shows "rowMatches P c row = rowMatches P (c\<lparr>snapshotDate := None\<rparr>) row
       \<and> rows (queryAirfareTrends P F dir c)
           = rows (queryAirfareTrends P F dir (c\<lparr>snapshotDate := None\<rparr>))
       \<and> total_rows (queryAirfareTrends P F dir c)
           = total_rows (queryAirfareTrends P F dir (c\<lparr>snapshotDate := None\<rparr>))
       \<and> matched_rows (queryAirfareTrends P F dir c)
           = matched_rows (queryAirfareTrends P F dir (c\<lparr>snapshotDate := None\<rparr>))
       \<and> rows_returned (queryAirfareTrends P F dir c)
           = rows_returned (queryAirfareTrends P F dir (c\<lparr>snapshotDate := None\<rparr>))"
proof -
  have "parseIsoDate P (snapshotDate c) = None"
    using assms by (simp add: parseIsoDate_unparsable)
  then have eq: "rowMatches P c = rowMatches P (c\<lparr>snapshotDate := None\<rparr>)"
    by (rule rowMatches_no_snapshot)
  show ?thesis
    unfolding queryAirfareTrends_def eq [symmetric]
    by (simp add: Let_def split: prod.splits)
qed


theorem unparsable_snapshot_filter_ignored_witness:
  "rowMatches testPlatform (noFilters\<lparr>snapshotDate := Some ''next tuesday''\<rparr>)
       [''snapshot_date'' \<mapsto> Str ''2024-W34'']
     = rowMatches testPlatform noFilters [''snapshot_date'' \<mapsto> Str ''2024-W34'']
   \<and> matched_rows (queryAirfareTrends testPlatform testFs ''/data''
         (noFilters\<lparr>snapshotDate := Some ''next tuesday''\<rparr>))
     = matched_rows (queryAirfareTrends testPlatform testFs ''/data'' noFilters)"
  using unparsable_snapshot_filter_ignored [of "noFilters\<lparr>snapshotDate := Some ''next tuesday''\<rparr>"
          "''next tuesday''" testPlatform "[''snapshot_date'' \<mapsto> Str ''2024-W34'']"
          testFs "''/data''"]
  by (simp add: noFilters_def matchDate_def matchWeek_def trim_def isSpace_def testPlatform_def)

section \<open>The loader\<close>

lemma testFs_good:
  "loadTrendRowsFromFile testPlatform testFs ''/data/good.csv'' csv = Inr sampleRows"
  by (simp add: loadTrendRowsFromFile_def loadTabularRows_def testFs_def testPlatform_def
        sampleCsv_def sampleRows_def
        splitLines_def stripCR_def trim_def isSpace_def basename_def Let_def)

lemma testFs_bad:
  "loadTrendRowsFromFile testPlatform testFs ''/data/bad.json'' json = Inl ParseFailed"
  by (simp add: loadTrendRowsFromFile_def loadJsonRows_def testFs_def testPlatform_def)

lemma testFs_resolve: "resolve testFs d = d"
  by (simp add: testFs_def)

lemma testFs_dataset:
  "loadTrendDataset testPlatform testFs ''/data'' = (sampleRows, [''bad.json'', ''good.csv''])"
proof -
  have r: "readdir testFs (resolve testFs ''/data'') =
             Some [\<lparr> name = ''good.csv'', isFile = True \<rparr>,
                   \<lparr> name = ''bad.json'', isFile = True \<rparr>,
                   \<lparr> name = ''notes.txt'', isFile = True \<rparr>,
                   \<lparr> name = ''old.csv'', isFile = False \<rparr>]"
    by (simp add: testFs_def)
  have lc: "localeCompare testPlatform = codeUnitCompare"
    by (simp add: testPlatform_def)
  have e: "map (\<lambda>p. toLowerCase (extname p))
             [''/data/good.csv'', ''/data/bad.json'', ''/data/notes.txt'']
           = [''.csv'', ''.json'', ''.txt'']"
    by (simp add: extname_def basename_def toLowerCase_def toLowerChar_def Let_def)
  show ?thesis
    unfolding loadTrendDataset_def Let_def r
    using e
    by (simp add: testFs_resolve resolve2_def SUPPORTED_SUFFIXES_def sortBy_def lc
          codeUnitCompare_def basename_def testFs_good testFs_bad)
qed

lemma testFs_empty: "loadTrendDataset testPlatform testFs ''/empty'' = ([], [])"
proof -
  have r: "readdir testFs (resolve testFs ''/empty'') = Some [\<lparr> name = ''README.md'', isFile = True \<rparr>]"
    by (simp add: testFs_def)
  have e: "toLowerCase (extname ''/empty/README.md'') = ''.md''"
    by (simp add: extname_def basename_def toLowerCase_def toLowerChar_def Let_def)
  show ?thesis
    unfolding loadTrendDataset_def Let_def r
    using e by (simp add: testFs_resolve resolve2_def SUPPORTED_SUFFIXES_def sortBy_def)
qed

lemma ingestFiles_concat:
  "ingestFiles P F ps acc = acc @ concat (map (fileRows P F) ps)"
  by (induction ps arbitrary: acc) (auto simp: fileRows_def split: option.splits sum.splits)

lemma set_insertBy: "set (insertBy cmp x xs) = insert x (set xs)"
  by (induction xs) auto

lemma set_sortBy: "set (sortBy cmp xs) = set xs"
  unfolding sortBy_def by (induction xs) (simp_all add: set_insertBy)

lemma length_insertBy: "length (insertBy cmp x xs) = Suc (length xs)"
  by (induction xs) auto

lemma length_sortBy: "length (sortBy cmp xs) = length xs"
  unfolding sortBy_def by (induction xs) (simp_all add: length_insertBy)

lemma basename_plain: "CHR ''/'' \<notin> set n \<Longrightarrow> basename (d @ CHR ''/'' # n) = n"
proof -
  assume "CHR ''/'' \<notin> set n"
  then have "takeWhile (\<lambda>c. c \<noteq> CHR ''/'') (rev n @ CHR ''/'' # rev d) = rev n"
    by (subst takeWhile_append2) auto
  then show ?thesis by (simp add: basename_def)
qed

lemma basename_resolve2: "CHR ''/'' \<notin> set n \<Longrightarrow> basename (resolve2 d n) = n"
proof -
  assume n: "CHR ''/'' \<notin> set n"
  show ?thesis
  proof (cases "d \<noteq> [] \<and> last d = CHR ''/''")
    case True
    then have "d = butlast d @ [CHR ''/'']"
      by (metis append_butlast_last_id)
    then have "resolve2 d n = butlast d @ CHR ''/'' # n"
      using True by (simp add: resolve2_def)
    then show ?thesis using basename_plain [OF n] by simp
  next
    case False
    then have "resolve2 d n = d @ CHR ''/'' # n"
      by (auto simp: resolve2_def)
    then show ?thesis using basename_plain [OF n] by simp
  qed
qed

lemma extname_basename: "extname p = extname (basename p)"
proof -
  have "basename (basename p) = basename p"
  proof -
    have "CHR ''/'' \<notin> set (basename p)"
      unfolding basename_def using set_takeWhileD [of "CHR ''/''" "\<lambda>c. c \<noteq> CHR ''/''" "rev p"]
      by auto
    then have "takeWhile (\<lambda>c. c \<noteq> CHR ''/'') (rev (basename p)) = rev (basename p)"
      by (intro takeWhile_eq_all_conv [THEN iffD2]) auto
    then show ?thesis by (simp add: basename_def)
  qed
  then show ?thesis by (simp add: extname_def)
qed

lemma supported_resolve2:
  "CHR ''/'' \<notin> set n \<Longrightarrow> supported (resolve2 d n) = supported n"
  unfolding supported_def
  by (metis extname_basename basename_resolve2)


lemma loadTrendDataset_listing:
  assumes rd: "readdir F (resolve F dir) = Some dirents"
    and names: "\<forall>d\<in>set dirents. CHR ''/'' \<notin> set (name d)"
  shows "snd (loadTrendDataset P F dir) =
           map basename (sortBy (\<lambda>a b. localeCompare P (basename a) (basename b))
             (map (\<lambda>d. resolve2 (resolve F dir) (name d))
               (filter (\<lambda>d. isFile d \<and> supported (name d)) dirents)))"
    and "fst (loadTrendDataset P F dir) =
           concat (map (fileRows P F) (sortBy (\<lambda>a b. localeCompare P (basename a) (basename b))
             (map (\<lambda>d. resolve2 (resolve F dir) (name d))
               (filter (\<lambda>d. isFile d \<and> supported (name d)) dirents))))"
proof -
  have "filter (\<lambda>filePath. SUPPORTED_SUFFIXES (toLowerCase (extname filePath)) \<noteq> None)
          (map (\<lambda>entry. resolve2 (resolve F dir) (name entry)) (filter isFile dirents))
        = map (\<lambda>d. resolve2 (resolve F dir) (name d))
            (filter (\<lambda>d. isFile d \<and> supported (name d)) dirents)"
    using names
  proof (induction dirents)
    case Nil
    show ?case by simp
  next
    case (Cons d ds)
    then have "supported (resolve2 (resolve F dir) (name d)) = supported (name d)"
      by (simp add: supported_resolve2)
    then show ?case using Cons by (simp add: supported_def)
  qed
  then show "snd (loadTrendDataset P F dir) =
           map basename (sortBy (\<lambda>a b. localeCompare P (basename a) (basename b))
             (map (\<lambda>d. resolve2 (resolve F dir) (name d))
               (filter (\<lambda>d. isFile d \<and> supported (name d)) dirents)))"
    and "fst (loadTrendDataset P F dir) =
           concat (map (fileRows P F) (sortBy (\<lambda>a b. localeCompare P (basename a) (basename b))
             (map (\<lambda>d. resolve2 (resolve F dir) (name d))
               (filter (\<lambda>d. isFile d \<and> supported (name d)) dirents))))"
    using rd by (simp_all add: loadTrendDataset_def Let_def ingestFiles_concat)
qed

text \<open>
  Claim C1, as the code has it. When the directory can be listed, the rows are those of
  the supported regular files in the order of their sorted names, a file that fails to
  load contributing none, and the call returns a pair, never an error.
  \<open>availableFiles\<close> holds the name of every supported regular file of the directory,
  of the files that failed to load as well as of those that loaded.
\<close>

theorem loadTrendDataset_partial_failure:
  fixes P F dir dirents
  defines "files \<equiv> sortBy (\<lambda>a b. localeCompare P (basename a) (basename b))
             (map (\<lambda>d. resolve2 (resolve F dir) (name d))
               (filter (\<lambda>d. isFile d \<and> supported (name d)) dirents))"
  assumes rd: "readdir F (resolve F dir) = Some dirents"
    and names: "\<forall>d\<in>set dirents. CHR ''/'' \<notin> set (name d)"
  shows "fst (loadTrendDataset P F dir) = concat (map (fileRows P F) files)
       \<and> snd (loadTrendDataset P F dir) = map basename files
       \<and> set (snd (loadTrendDataset P F dir))
           = set (map name (filter (\<lambda>d. isFile d \<and> supported (name d)) dirents))
       \<and> (\<forall>p\<in>set files. \<forall>sfx e.
             SUPPORTED_SUFFIXES (toLowerCase (extname p)) = Some sfx
               \<and> loadTrendRowsFromFile P F p sfx = Inl e
             \<longrightarrow> fileRows P F p = [] \<and> basename p \<in> set (snd (loadTrendDataset P F dir)))
       \<and> (\<forall>p\<in>set files. \<forall>sfx rs.
             SUPPORTED_SUFFIXES (toLowerCase (extname p)) = Some sfx
               \<and> loadTrendRowsFromFile P F p sfx = Inr rs
             \<longrightarrow> fileRows P F p = rs \<and> basename p \<in> set (snd (loadTrendDataset P F dir)))"
proof -
  have 1: "fst (loadTrendDataset P F dir) = concat (map (fileRows P F) files)"
    and 2: "snd (loadTrendDataset P F dir) = map basename files"
    unfolding files_def using loadTrendDataset_listing [OF rd names] by simp_all
  have "set (map basename files)
          = (\<lambda>d. basename (resolve2 (resolve F dir) (name d)))
              ` {d \<in> set dirents. isFile d \<and> supported (name d)}"
    unfolding files_def by (auto simp: set_sortBy)
  also have "\<dots> = name ` {d \<in> set dirents. isFile d \<and> supported (name d)}"
    using names by (intro image_cong) (auto simp: basename_resolve2)
  finally have 3: "set (snd (loadTrendDataset P F dir))
           = set (map name (filter (\<lambda>d. isFile d \<and> supported (name d)) dirents))"
    using 2 by auto
  have 4: "\<forall>p\<in>set files. \<forall>sfx e.
             SUPPORTED_SUFFIXES (toLowerCase (extname p)) = Some sfx
               \<and> loadTrendRowsFromFile P F p sfx = Inl e
             \<longrightarrow> fileRows P F p = [] \<and> basename p \<in> set (snd (loadTrendDataset P F dir))"
    using 2 by (auto simp: fileRows_def)
  have 5: "\<forall>p\<in>set files. \<forall>sfx rs.
             SUPPORTED_SUFFIXES (toLowerCase (extname p)) = Some sfx
               \<and> loadTrendRowsFromFile P F p sfx = Inr rs
             \<longrightarrow> fileRows P F p = rs \<and> basename p \<in> set (snd (loadTrendDataset P F dir))"
    using 2 by (auto simp: fileRows_def)
  show ?thesis using 1 2 3 4 5 by blast
qed

theorem loadTrendDataset_partial_failure_witness:
  "set (snd (loadTrendDataset testPlatform testFs ''/data'')) = {''good.csv'', ''bad.json''}"
proof -
  have e: "map (\<lambda>p. toLowerCase (extname p)) [''good.csv'', ''bad.json'', ''notes.txt'']
           = [''.csv'', ''.json'', ''.txt'']"
    by (simp add: extname_def basename_def toLowerCase_def toLowerChar_def Let_def)
  have rd: "readdir testFs (resolve testFs ''/data'') =
             Some [\<lparr> name = ''good.csv'', isFile = True \<rparr>,
                   \<lparr> name = ''bad.json'', isFile = True \<rparr>,
                   \<lparr> name = ''notes.txt'', isFile = True \<rparr>,
                   \<lparr> name = ''old.csv'', isFile = False \<rparr>]"
    by (simp add: testFs_def)
  have names: "\<forall>d\<in>set [\<lparr> name = ''good.csv'', isFile = True \<rparr>,
                   \<lparr> name = ''bad.json'', isFile = True \<rparr>,
                   \<lparr> name = ''notes.txt'', isFile = True \<rparr>,
                   \<lparr> name = ''old.csv'', isFile = False \<rparr>]. CHR ''/'' \<notin> set (name d)"
    by simp
  from loadTrendDataset_partial_failure [OF rd names, of testPlatform]
  have "set (snd (loadTrendDataset testPlatform testFs ''/data''))
          = set (map name (filter (\<lambda>d. isFile d \<and> supported (name d))
              [\<lparr> name = ''good.csv'', isFile = True \<rparr>,
               \<lparr> name = ''bad.json'', isFile = True \<rparr>,
               \<lparr> name = ''notes.txt'', isFile = True \<rparr>,
               \<lparr> name = ''old.csv'', isFile = False \<rparr>]))"
    by (elim conjE)
  then show ?thesis
    using e by (simp add: supported_def SUPPORTED_SUFFIXES_def)
qed

text \<open>The JSON file that fails to parse is listed among the available files.\<close>

theorem loadTrendDataset_partial_failure_counterexample:
  "loadTrendRowsFromFile testPlatform testFs ''/data/bad.json'' json = Inl ParseFailed
   \<and> loadTrendDataset testPlatform testFs ''/data'' = (sampleRows, [''bad.json'', ''good.csv''])"
  by (simp add: testFs_bad testFs_dataset)


section \<open>The query result\<close>

lemma limit_clamp:
  "min (max (case l of None \<Rightarrow> DEFAULT_LIMIT | Some x \<Rightarrow> x) 1) MAX_LIMIT
     = clamp 1 200 (case l of None \<Rightarrow> 25 | Some x \<Rightarrow> x)"
  by (simp add: clamp_def DEFAULT_LIMIT_def MAX_LIMIT_def split: option.splits)

lemma clamp_bounds: "1 \<le> clamp 1 200 x" "clamp 1 200 x \<le> 200"
  by (simp_all add: clamp_def)

lemma query_rows:
  "rows (queryAirfareTrends P F dir c)
     = take (nat (clamp 1 200 (case limit c of None \<Rightarrow> 25 | Some l \<Rightarrow> l)))
         (sortBy (rowCompare P) (filter (rowMatches P c) (fst (loadTrendDataset P F dir))))"
  unfolding queryAirfareTrends_def limit_clamp [symmetric]
  by (cases "loadTrendDataset P F dir") (simp add: Let_def sortBy_def)

lemma query_filters:
  "filters (queryAirfareTrends P F dir c)
     = (if fst (loadTrendDataset P F dir) = [] then CallerFilters c
        else Applied
          \<lparr> snapshot_date = snapshotDate c, route_contains = routeContains c,
            origin_airport = originAirport c, destination_airport = destinationAirport c,
            airline_contains = airlineContains c, season_contains = seasonContains c,
            notable_contains = notableContains c,
            limit_applied = clamp 1 200 (case limit c of None \<Rightarrow> 25 | Some l \<Rightarrow> l) \<rparr>)"
  unfolding queryAirfareTrends_def limit_clamp [symmetric]
  by (cases "loadTrendDataset P F dir") (simp add: Let_def)

lemma query_counts:
  "total_rows (queryAirfareTrends P F dir c) = length (fst (loadTrendDataset P F dir))
   \<and> matched_rows (queryAirfareTrends P F dir c)
       = length (filter (rowMatches P c) (fst (loadTrendDataset P F dir)))
   \<and> rows_returned (queryAirfareTrends P F dir c) = length (rows (queryAirfareTrends P F dir c))"
  unfolding queryAirfareTrends_def
  by (cases "loadTrendDataset P F dir") (simp add: Let_def length_sortBy)

text \<open>
  Claim C3. The effective limit is the requested limit, or 25 when there is none,
  clamped into the range from 1 to 200, and the returned rows are the first that many of
  the sorted matched rows; so at most 200 rows come back whatever the requested limit,
  at most one for a limit of 0 or less, and the limit echoed by a query over a dataset
  with rows is the clamped one.
\<close>

theorem query_limit_clamp:
  fixes P F dir c
  defines "eff \<equiv> clamp 1 200 (case limit c of None \<Rightarrow> 25 | Some l \<Rightarrow> l)"
    and "matched \<equiv> sortBy (rowCompare P) (filter (rowMatches P c) (fst (loadTrendDataset P F dir)))"
  shows "rows (queryAirfareTrends P F dir c) = take (nat eff) matched
       \<and> 1 \<le> eff \<and> eff \<le> 200
       \<and> length (rows (queryAirfareTrends P F dir c)) = min (nat eff) (length matched)
       \<and> length (rows (queryAirfareTrends P F dir c)) \<le> 200
       \<and> ((\<exists>l. limit c = Some l \<and> l \<le> 0) \<longrightarrow> length (rows (queryAirfareTrends P F dir c)) \<le> 1)
       \<and> (limit c = Some 1000 \<and> length matched = 50 \<longrightarrow>
            length (rows (queryAirfareTrends P F dir c)) = 50)
       \<and> (fst (loadTrendDataset P F dir) \<noteq> [] \<longrightarrow>
            (\<exists>a. filters (queryAirfareTrends P F dir c) = Applied a \<and> limit_applied a = eff))"
proof -
  have r: "rows (queryAirfareTrends P F dir c) = take (nat eff) matched"
    unfolding eff_def matched_def by (rule query_rows)
  have b: "1 \<le> eff \<and> eff \<le> 200"
    unfolding eff_def by (simp add: clamp_bounds)
  have l: "length (rows (queryAirfareTrends P F dir c)) = min (nat eff) (length matched)"
    using r by (simp add: min.commute)
  have z: "(\<exists>l. limit c = Some l \<and> l \<le> 0) \<longrightarrow> eff = 1"
    unfolding eff_def by (auto simp: clamp_def)
  have k: "limit c = Some 1000 \<longrightarrow> eff = 200"
    unfolding eff_def by (auto simp: clamp_def)
  have e: "fst (loadTrendDataset P F dir) \<noteq> [] \<longrightarrow>
            (\<exists>a. filters (queryAirfareTrends P F dir c) = Applied a \<and> limit_applied a = eff)"
    unfolding eff_def by (simp add: query_filters)
  show ?thesis
    using r b l z k e by auto
qed

theorem query_limit_clamp_witness:
  "length (rows (queryAirfareTrends testPlatform testFs ''/data'' (noFilters\<lparr>limit := Some 0\<rparr>))) \<le> 1
   \<and> length (rows (queryAirfareTrends testPlatform testFs ''/data''
        (noFilters\<lparr>limit := Some (- 5)\<rparr>))) \<le> 1
   \<and> (\<exists>a. filters (queryAirfareTrends testPlatform testFs ''/data''
        (noFilters\<lparr>limit := Some 1000\<rparr>)) = Applied a \<and> limit_applied a = 200)"
  using query_limit_clamp [of testPlatform testFs "''/data''" "noFilters\<lparr>limit := Some 0\<rparr>"]
    query_limit_clamp [of testPlatform testFs "''/data''" "noFilters\<lparr>limit := Some (- 5)\<rparr>"]
    query_limit_clamp [of testPlatform testFs "''/data''" "noFilters\<lparr>limit := Some 1000\<rparr>"]
  by (simp add: testFs_dataset sampleRows_def sampleRecords_def clamp_def)

text \<open>
  Claim C8 at an input where the code departs from it: over a directory without data
  files the result reports the three counts as 0 and carries the caller's own filter
  object, with no limit where the caller gave none, not the normalised filters with the
  effective limit 25.
\<close>

theorem query_empty_dataset_echo:
  "queryAirfareTrends testPlatform testFs ''/empty'' (noFilters\<lparr>routeContains := Some ''JFK''\<rparr>)
     = \<lparr> rows = [], available_files = [],
         filters = CallerFilters (noFilters\<lparr>routeContains := Some ''JFK''\<rparr>),
         total_rows = 0, matched_rows = 0, rows_returned = 0, trend_data_dir = ''/empty'' \<rparr>
   \<and> limit (noFilters\<lparr>routeContains := Some ''JFK''\<rparr>) = None"
  by (simp add: queryAirfareTrends_def testFs_empty testFs_resolve noFilters_def)

section \<open>The order of the rows\<close>




















section \<open>Authentication\<close>

lemma verifyBearerToken_missing_scopes:
  assumes "tok \<noteq> []" and "jwtVerify A tok = Inr payload"
    and "\<not> set REQUIRED_SCOPES \<subseteq> set (extractScopes payload)"
  shows "verifyBearerToken A tok =
           Inl (AuthorizationError
                 (''Missing required scopes: ''
                    @ join '', '' (filter (\<lambda>s. s \<notin> set (extractScopes payload)) REQUIRED_SCOPES))
                 403)"
proof -
  have "filter (\<lambda>s. s \<notin> set (extractScopes payload)) REQUIRED_SCOPES \<noteq> []"
    using assms(3) by (auto simp: filter_empty_conv)
  moreover have "REQUIRED_SCOPES \<noteq> []"
    using assms(3) by auto
  ultimately show ?thesis
    using assms(1,2) by (simp add: verifyBearerToken_def ensureRequiredScopes_def Let_def)
qed

lemma verifyBearerToken_status:
  assumes "verifyBearerToken A tok = Inl (AuthorizationError m st)"
  shows "(st = 401 \<and> tok = [])
       \<or> (st = 403 \<and> (\<exists>payload. jwtVerify A tok = Inr payload
                          \<and> \<not> set REQUIRED_SCOPES \<subseteq> set (extractScopes payload)))"
  using assms
  by (auto simp: verifyBearerToken_def ensureRequiredScopes_def Let_def filter_empty_conv
        split: if_splits sum.splits)

lemma authenticateRequest_status:
  assumes "authenticateRequest A headers = Inl (AuthorizationError m st)"
  shows "st = 401
       \<or> (st = 403 \<and> (\<exists>tok payload. jwtVerify A tok = Inr payload
                          \<and> \<not> set REQUIRED_SCOPES \<subseteq> set (extractScopes payload)))"
proof (cases "st = 401")
  case True
  then show ?thesis by simp
next
  case False
  then obtain tok where "verifyBearerToken A tok = Inl (AuthorizationError m st)"
    using assms
    by (auto simp: authenticateRequest_def Let_def
          split: option.splits header_value.splits if_splits)
  from verifyBearerToken_status [OF this] False show ?thesis by blast
qed

text \<open>What \<^verbatim>\<open>jwtVerify\<close> throws is passed on as it is: it is no
  \<^verbatim>\<open>AuthorizationError\<close>, and the route answers it with status 500.\<close>

lemma jwtVerify_failure_passed_on:
  assumes "tok \<noteq> []" and "jwtVerify A tok = Inl e"
  shows "verifyBearerToken A tok = Inl (JoseError e) \<and> responseStatus (JoseError e) = 500"
  using assms by (simp add: verifyBearerToken_def responseStatus_def)

text \<open>
  Claim C2. A verified token whose extracted scopes omit a required scope is refused
  with an \<^verbatim>\<open>AuthorizationError\<close> of status 403 whose message lists the required
  scopes that are missing, those and no others; a missing token, a missing
  \<open>Authorization\<close> header and a header that is not a Bearer header are refused with
  status 401; and an \<^verbatim>\<open>AuthorizationError\<close> out of \<^verbatim>\<open>authenticateRequest\<close>
  has status 403 only for missing scopes and status 401 otherwise. The route answers
  with that status.
\<close>

theorem insufficient_scope_forbidden:
  fixes A tok payload headers h hs
  defines "missing \<equiv> filter (\<lambda>s. s \<notin> set (extractScopes payload)) REQUIRED_SCOPES"
  shows "(tok \<noteq> [] \<and> jwtVerify A tok = Inr payload
            \<and> \<not> set REQUIRED_SCOPES \<subseteq> set (extractScopes payload) \<longrightarrow>
          verifyBearerToken A tok =
            Inl (AuthorizationError (''Missing required scopes: '' @ join '', '' missing) 403)
          \<and> responseStatus
               (AuthorizationError (''Missing required scopes: '' @ join '', '' missing) 403) = 403
          \<and> set missing = set REQUIRED_SCOPES - set (extractScopes payload)
          \<and> missing \<noteq> [])
       \<and> verifyBearerToken A [] = Inl (AuthorizationError ''Missing bearer token'' 401)
       \<and> (headers ''authorization'' = None \<and> headers ''Authorization'' = None \<longrightarrow>
            authenticateRequest A headers
              = Inl (AuthorizationError ''Missing Authorization header'' 401))
       \<and> (headers ''authorization'' = Some (Multi hs) \<or> headers ''authorization'' = Some (Single []) \<longrightarrow>
            authenticateRequest A headers
              = Inl (AuthorizationError ''Missing Authorization header'' 401))
       \<and> (headers ''authorization'' = Some (Single h) \<and> h \<noteq> []
            \<and> \<not> startsWith (toLowerCase (trim h)) ''bearer '' \<longrightarrow>
            authenticateRequest A headers
              = Inl (AuthorizationError ''Authorization header must be a Bearer token'' 401))
       \<and> (\<forall>m st. authenticateRequest A headers = Inl (AuthorizationError m st) \<longrightarrow>
            responseStatus (AuthorizationError m st) = st
            \<and> (st = 401
               \<or> (st = 403 \<and> (\<exists>t p. jwtVerify A t = Inr p
                                 \<and> \<not> set REQUIRED_SCOPES \<subseteq> set (extractScopes p)))))"
proof -
  have 1: "tok \<noteq> [] \<and> jwtVerify A tok = Inr payload
            \<and> \<not> set REQUIRED_SCOPES \<subseteq> set (extractScopes payload) \<longrightarrow>
          verifyBearerToken A tok =
            Inl (AuthorizationError (''Missing required scopes: '' @ join '', '' missing) 403)
          \<and> responseStatus
               (AuthorizationError (''Missing required scopes: '' @ join '', '' missing) 403) = 403
          \<and> set missing = set REQUIRED_SCOPES - set (extractScopes payload)
          \<and> missing \<noteq> []"
    unfolding missing_def
    using verifyBearerToken_missing_scopes [of tok A payload]
    by (auto simp: responseStatus_def filter_empty_conv)
  have 2: "verifyBearerToken A [] = Inl (AuthorizationError ''Missing bearer token'' 401)"
    by (simp add: verifyBearerToken_def)
  have 3: "headers ''authorization'' = None \<and> headers ''Authorization'' = None \<longrightarrow>
            authenticateRequest A headers
              = Inl (AuthorizationError ''Missing Authorization header'' 401)"
    by (simp add: authenticateRequest_def)
  have 4: "headers ''authorization'' = Some (Multi hs) \<or> headers ''authorization'' = Some (Single []) \<longrightarrow>
            authenticateRequest A headers
              = Inl (AuthorizationError ''Missing Authorization header'' 401)"
    by (auto simp: authenticateRequest_def)
  have 5: "headers ''authorization'' = Some (Single h) \<and> h \<noteq> []
            \<and> \<not> startsWith (toLowerCase (trim h)) ''bearer '' \<longrightarrow>
            authenticateRequest A headers
              = Inl (AuthorizationError ''Authorization header must be a Bearer token'' 401)"
    by (simp add: authenticateRequest_def Let_def)
  have 6: "\<forall>m st. authenticateRequest A headers = Inl (AuthorizationError m st) \<longrightarrow>
            responseStatus (AuthorizationError m st) = st
            \<and> (st = 401
               \<or> (st = 403 \<and> (\<exists>t p. jwtVerify A t = Inr p
                                 \<and> \<not> set REQUIRED_SCOPES \<subseteq> set (extractScopes p))))"
    using authenticateRequest_status [of A headers] by (simp add: responseStatus_def)
  show ?thesis
    using 1 2 3 4 5 6 by blast
qed

lemma testAuth_narrow_scopes: "extractScopes [(''scope'', Str ''openid'')] = [''openid'']"
  by (simp add: extractScopes_def rawOf_def nullish_def falsy_def isScopeSep_def isSpace_def
        trim_def Let_def)

theorem insufficient_scope_forbidden_witness:
  "verifyBearerToken testAuth ''narrow''
     = Inl (AuthorizationError ''Missing required scopes: profile, email'' 403)
   \<and> authenticateRequest testAuth [''authorization'' \<mapsto> Single ''Basic abc'']
     = Inl (AuthorizationError ''Authorization header must be a Bearer token'' 401)
   \<and> authenticateRequest testAuth Map.empty
     = Inl (AuthorizationError ''Missing Authorization header'' 401)"
  using insufficient_scope_forbidden [where tok = "''narrow''" and A = testAuth
          and payload = "[(''scope'', Str ''openid'')]"
          and headers = "[''authorization'' \<mapsto> Single ''Basic abc'']" and h = "''Basic abc''"]
    insufficient_scope_forbidden [where tok = "''narrow''" and A = testAuth
          and payload = "[(''scope'', Str ''openid'')]" and headers = Map.empty]
  by (simp add: testAuth_def testAuth_narrow_scopes REQUIRED_SCOPES_def
        trim_def isSpace_def toLowerCase_def toLowerChar_def)

end
